theory Spec2Isabelle
  imports Main "HOL-Library.Char_ord" "HOL-Library.List_Lexorder" "HOL-Library.Sublist"
begin

section \<open>Data model\<close>

text \<open>
  Modelled from the spec: the structs of package \<open>models\<close> (\<open>models.go\<close> is not among
  the sources), with the fields of section 3 of the spec that the sources read or write.
  The time of a lock is a number. Go's \<open>error\<close> is a message; a nil error is \<open>None\<close> of
  \<open>error option\<close>, or the \<open>Inr\<close> side of a sum.
\<close>

datatype error = Err string

fun errors_Wrap :: "error \<Rightarrow> string \<Rightarrow> error" where
  "errors_Wrap (Err s) msg = Err (msg @ '': '' @ s)"

record VCSHost =
  Hostname :: string
  Type :: nat

record Repo =
  FullName :: string
  Owner :: string
  Name :: string
  CloneURL :: string
  SanitizedCloneURL :: string
  VCSHost :: VCSHost

datatype PullRequestState = Open | Closed

record PullRequest =
  Num :: int
  HeadCommit :: string
  URL :: string
  Branch :: string
  Author :: string
  State :: PullRequestState
  BaseRepo :: Repo

record User =
  Username :: string

record Project =
  RepoFullName :: string
  Path :: string

record ProjectLock =
  Project :: Project
  Pull :: PullRequest
  User :: User
  Workspace :: string
  Time :: int

section \<open>Go library functions the sources call\<close>

text \<open>
  The bytes of a stored value: \<open>Json l\<close> is a JSON text that \<open>json.Unmarshal\<close>
  reads as the lock \<open>l\<close>, \<open>Garbage e\<close> is bytes that it rejects with the error \<open>e\<close>.
  The nil slice is read like empty input.
\<close>

datatype blob = Json ProjectLock | Garbage error

fun json_Unmarshal :: "blob \<Rightarrow> error + ProjectLock" where
  "json_Unmarshal (Json l) = Inr l"
| "json_Unmarshal (Garbage e) = Inl e"

definition nilBytes :: blob where
  "nilBytes = Garbage (Err ''unexpected end of JSON input'')"

text \<open>
  \<open>filepath.Join\<close>, \<open>filepath.Rel\<close>, \<open>filepath.Dir\<close>, \<open>strconv.Quote\<close> (the verb
  \<open>%q\<close>), \<open>strconv.Itoa\<close> (the verb \<open>%d\<close>) and \<open>json.Marshal\<close> belong to the Go
  standard library. The functions below take them as the fields of one argument and hold
  for whatever they compute. \<open>json.Marshal\<close> of a lock gives an error, or bytes of some
  length; the lock these bytes read back as need not be the lock that went in (a string
  that is not valid UTF-8 comes back changed, a time loses its clock reading).
\<close>

record golib =
  filepath_Join :: "string list \<Rightarrow> string"
  filepath_Rel :: "string \<Rightarrow> string \<Rightarrow> string"
  filepath_Dir :: "string \<Rightarrow> string"
  strconv_Quote :: "string \<Rightarrow> string"
  strconv_Itoa :: "int \<Rightarrow> string"
  json_Marshal :: "ProjectLock \<Rightarrow> error + blob"
  len_bytes :: "blob \<Rightarrow> nat"

fun Error_string :: "error \<Rightarrow> string" where
  "Error_string (Err s) = s"

section \<open>The lock store (boltdb.go)\<close>

text \<open>
  A Bolt bucket holds one value per key and its cursor walks the keys in byte order: it is
  a list of entries kept in ascending key order. \<open>Delete\<close> of a missing key does
  nothing, \<open>Seek\<close> moves to the first key not below its argument. \<open>Put\<close> inserts or
  replaces; in an update transaction it fails for an empty key, for a key longer than
  \<open>MaxKeySize\<close> and for a value longer than \<open>MaxValueSize\<close>, and then stores nothing.
\<close>

type_synonym bucket = "(string \<times> blob) list"

definition MaxKeySize :: nat where
  "MaxKeySize = 32768"

definition MaxValueSize :: nat where
  "MaxValueSize = 2147483646"

definition bucket_Get :: "bucket \<Rightarrow> string \<Rightarrow> blob option" where
  "bucket_Get b k = map_of b k"

fun bucket_insert :: "bucket \<Rightarrow> string \<Rightarrow> blob \<Rightarrow> bucket" where
  "bucket_insert [] k v = [(k, v)]"
| "bucket_insert ((k', v') # es) k v =
     (if k < k' then (k, v) # (k', v') # es
      else if k = k' then (k, v) # es
      else (k', v') # bucket_insert es k v)"

text \<open>\<open>Put\<close> of the key, the value and the length of the value in bytes.\<close>

definition bucket_Put :: "bucket \<Rightarrow> string \<Rightarrow> blob \<Rightarrow> nat \<Rightarrow> error + bucket" where
  "bucket_Put b k v len =
     (if length k = 0 then Inl (Err ''key required'')
      else if length k > MaxKeySize then Inl (Err ''key too large'')
      else if len > MaxValueSize then Inl (Err ''value too large'')
      else Inr (bucket_insert b k v))"

definition bucket_Delete :: "bucket \<Rightarrow> string \<Rightarrow> bucket" where
  "bucket_Delete b k = filter (\<lambda>e. fst e \<noteq> k) b"

definition cursor_Seek :: "bucket \<Rightarrow> string \<Rightarrow> bucket" where
  "cursor_Seek b seek = dropWhile (\<lambda>e. fst e < seek) b"

definition lockKey :: "Project \<Rightarrow> string \<Rightarrow> string" where
  "lockKey p workspace = RepoFullName p @ ''/'' @ Path p @ ''/'' @ workspace"

text \<open>
  \<open>TryLock\<close>: one update transaction. The result is the error, or the pair
  (lockAcquired, currLock); the second component is the bucket after the transaction.
  The error of \<open>json.Marshal\<close> is dropped, which leaves the nil slice to be stored; the
  error of \<open>Put\<close> is dropped too, and the bucket is then as it was.
\<close>

definition TryLock ::
  "golib \<Rightarrow> ProjectLock \<Rightarrow> bucket \<Rightarrow> (error + bool \<times> ProjectLock) \<times> bucket" where
  "TryLock lib newLock b =
     (let key = lockKey (Project newLock) (Workspace newLock);
          newLockSerialized =
            (case json_Marshal lib newLock of Inl err \<Rightarrow> nilBytes | Inr bytes \<Rightarrow> bytes);
          len =
            (case json_Marshal lib newLock of Inl err \<Rightarrow> 0 | Inr bytes \<Rightarrow> len_bytes lib bytes)
      in
      case bucket_Get b key of
        None \<Rightarrow>
          (Inr (True, newLock),
           (case bucket_Put b key newLockSerialized len of Inl err \<Rightarrow> b | Inr b' \<Rightarrow> b'))
      | Some currLockSerialized \<Rightarrow>
          (case json_Unmarshal currLockSerialized of
             Inl err \<Rightarrow>
               (Inl (errors_Wrap (errors_Wrap err ''failed to deserialize current lock'')
                      ''DB transaction failed''), b)
           | Inr currLock \<Rightarrow> (Inr (False, currLock), b)))"

text \<open>
  \<open>Unlock\<close>: returns the deleted lock, or \<open>None\<close> (the nil pointer) when there was none.
\<close>

definition Unlock :: "Project \<Rightarrow> string \<Rightarrow> bucket \<Rightarrow> (error + ProjectLock option) \<times> bucket" where
  "Unlock p workspace b =
     (let key = lockKey p workspace in
      case bucket_Get b key of
        None \<Rightarrow> (Inr None, bucket_Delete b key)
      | Some serialized \<Rightarrow>
          (case json_Unmarshal serialized of
             Inl err \<Rightarrow>
               (Inl (errors_Wrap (errors_Wrap err ''failed to deserialize lock'')
                      ''DB transaction failed''), b)
           | Inr lock \<Rightarrow> (Inr (Some lock), bucket_Delete b key)))"

text \<open>
  \<open>UnlockByPull\<close>: the cursor loop of the view transaction, started at
  \<open>Seek(repoFullName)\<close> and run while the key has the prefix \<open>repoFullName\<close>; then the
  loop that unlocks every lock found.
\<close>

fun scanPull ::
  "golib \<Rightarrow> string \<Rightarrow> int \<Rightarrow> bucket \<Rightarrow> ProjectLock list \<Rightarrow> error + ProjectLock list" where
  "scanPull lib repoFullName pullNum [] locks = Inr locks"
| "scanPull lib repoFullName pullNum ((k, v) # es) locks =
     (if prefix repoFullName k then
        (case json_Unmarshal v of
           Inl err \<Rightarrow>
             Inl (errors_Wrap err (''deserializing lock at key '' @ strconv_Quote lib k))
         | Inr lock \<Rightarrow>
             scanPull lib repoFullName pullNum es
               (if Num (Pull lock) = pullNum then locks @ [lock] else locks))
      else Inr locks)"

fun unlockEach :: "ProjectLock list \<Rightarrow> bucket \<Rightarrow> error option \<times> bucket" where
  "unlockEach [] b = (None, b)"
| "unlockEach (lock # locks) b =
     (case Unlock (Project lock) (Workspace lock) b of
        (Inl err, b') \<Rightarrow>
          (Some (errors_Wrap err
             (''unlocking repo '' @ RepoFullName (Project lock) @ '', path '' @
              Path (Project lock) @ '', workspace '' @ Workspace lock)), b')
      | (Inr _, b') \<Rightarrow> unlockEach locks b')"

definition UnlockByPull ::
  "golib \<Rightarrow> string \<Rightarrow> int \<Rightarrow> bucket \<Rightarrow> (error + ProjectLock list) \<times> bucket" where
  "UnlockByPull lib repoFullName pullNum b =
     (case scanPull lib repoFullName pullNum (cursor_Seek b repoFullName) [] of
        Inl err \<Rightarrow> (Inl err, b)
      | Inr locks \<Rightarrow>
          (case unlockEach locks b of
             (Some err, b') \<Rightarrow> (Inl err, b')
           | (None, b') \<Rightarrow> (Inr locks, b')))"

text \<open>
  Shapes of a bucket: keys strictly ascending (the lock operations keep this), every
  stored lock filed under the key of its own project and workspace, and every value the
  JSON of a lock.
\<close>

definition strictly_sorted :: "bucket \<Rightarrow> bool" where
  "strictly_sorted b = sorted_wrt (<) (map fst b)"

definition filed :: "bucket \<Rightarrow> bool" where
  "filed b =
     list_all (\<lambda>e. case snd e of
                  Json l \<Rightarrow> fst e = lockKey (Project l) (Workspace l)
                | Garbage _ \<Rightarrow> True) b"

definition decodable :: "bucket \<Rightarrow> bool" where
  "decodable b = list_all (\<lambda>e. case snd e of Json l \<Rightarrow> True | Garbage _ \<Rightarrow> False) b"

definition store_inv :: "bucket \<Rightarrow> bool" where
  "store_inv b \<longleftrightarrow> strictly_sorted b \<and> filed b \<and> decodable b"

text \<open>
  The entries that the cursor loop of \<open>UnlockByPull\<close> selects: the key starts with the
  repo name and the stored lock has the pull number.
\<close>

definition selected :: "string \<Rightarrow> int \<Rightarrow> string \<times> blob \<Rightarrow> bool" where
  "selected repoFullName pullNum e =
     (prefix repoFullName (fst e) \<and>
      (case snd e of Json l \<Rightarrow> Num (Pull l) = pullNum | Garbage _ \<Rightarrow> False))"

fun stored :: "string \<times> blob \<Rightarrow> ProjectLock list" where
  "stored (k, Json l) = [l]"
| "stored (k, Garbage err) = []"

definition locksAt :: "string \<Rightarrow> bucket \<Rightarrow> bucket" where
  "locksAt key b = filter (\<lambda>e. fst e = key) b"

text \<open>
  The buckets the lock service can be in: \<open>New\<close> creates the bucket empty, and it changes
  only through \<open>TryLock\<close>, \<open>Unlock\<close> and \<open>UnlockByPull\<close>.
\<close>

inductive reachable :: "bucket \<Rightarrow> bool" where
  New: "reachable []"
| TryLock: "reachable b \<Longrightarrow> reachable (snd (TryLock lib newLock b))"
| Unlock: "reachable b \<Longrightarrow> reachable (snd (Unlock p workspace b))"
| UnlockByPull: "reachable b \<Longrightarrow> reachable (snd (UnlockByPull lib repoFullName pullNum b))"

code_pred reachable .

section \<open>Commit status of a run (project_result.go, commit_status_updater.go)\<close>

datatype CommitStatus = PendingCommitStatus | SuccessCommitStatus | FailedCommitStatus

record PlanSuccess =
  TerraformOutput :: string
  LockURL :: string

record ProjectResult =
  Path :: string
  Error :: "error option"
  Failure :: string
  PlanSuccess :: "PlanSuccess option"
  ApplySuccess :: string

definition Status :: "ProjectResult \<Rightarrow> CommitStatus" where
  "Status p =
     (if ProjectResult.Error p \<noteq> None then FailedCommitStatus
      else if ProjectResult.Failure p \<noteq> '''' then FailedCommitStatus
      else SuccessCommitStatus)"

record CommandResult =
  Error :: "error option"
  Failure :: string
  ProjectResults :: "ProjectResult list"

fun worstStatus :: "CommitStatus list \<Rightarrow> CommitStatus" where
  "worstStatus [] = SuccessCommitStatus"
| "worstStatus (s # ss) = (if s = FailedCommitStatus then FailedCommitStatus else worstStatus ss)"

text \<open>
  \<open>UpdateProjectResult\<close> computes the status below and hands it, with the base repo,
  the pull request and the command name, to \<open>Update\<close>, which passes it on to the VCS
  client unchanged. The value is that status.
\<close>

definition UpdateProjectResult :: "CommandResult \<Rightarrow> CommitStatus" where
  "UpdateProjectResult res =
     (if CommandResult.Error res \<noteq> None \<or> CommandResult.Failure res \<noteq> ''''
      then FailedCommitStatus
      else worstStatus (map Status (ProjectResults res)))"

section \<open>The plan command line (plan_step_runner.go)\<close>

text \<open>
  Modelled from the spec: the fields of \<open>models.ProjectCommandContext\<close> that
  \<open>buildPlanCmd\<close> and \<open>tfVars\<close> read (the struct is declared in \<open>models.go\<close>). The
  project config is only handed on to \<open>GetPlanFilename\<close>; a Terraform version is its
  text.
\<close>

type_synonym Version = string

record 'cfg ProjectCommandContext =
  BaseRepo :: Repo
  Pull :: PullRequest
  User :: User
  Workspace :: string
  CommentArgs :: "string list"
  ProjectConfig :: "'cfg option"

text \<open>
  What \<open>buildPlanCmd\<close> reads besides its arguments: whether \<open>os.Stat\<close> of a path
  succeeds, the plan file name that \<open>GetPlanFilename\<close> gives for a workspace and project
  config, and the check of the Terraform version against the constraint \<open>>=0.12-a\<close>.
\<close>

record 'cfg PlanStepEnv =
  os_Stat_ok :: "string \<Rightarrow> bool"
  GetPlanFilename :: "string \<Rightarrow> 'cfg option \<Rightarrow> string"
  vTwelveAndUp_Check :: "Version \<Rightarrow> bool"

definition tfVars :: "golib \<Rightarrow> 'cfg PlanStepEnv \<Rightarrow> 'cfg ProjectCommandContext \<Rightarrow> Version \<Rightarrow> string list" where
  "tfVars lib env ctx tfVersion =
     (if vTwelveAndUp_Check env tfVersion then []
      else [''-var'',
            ''atlantis_user='' @ strconv_Quote lib (Username (ProjectCommandContext.User ctx)),
            ''-var'',
            ''atlantis_repo='' @ strconv_Quote lib (FullName (ProjectCommandContext.BaseRepo ctx)),
            ''-var'',
            ''atlantis_repo_name='' @ strconv_Quote lib (Name (ProjectCommandContext.BaseRepo ctx)),
            ''-var'',
            ''atlantis_repo_owner='' @ strconv_Quote lib (Owner (ProjectCommandContext.BaseRepo ctx)),
            ''-var'',
            ''atlantis_pull_num='' @ strconv_Itoa lib (Num (ProjectCommandContext.Pull ctx))])"

fun flattenInto :: "string list \<Rightarrow> string list list \<Rightarrow> string list" where
  "flattenInto flattened [] = flattened"
| "flattenInto flattened (v # slices) = flattenInto (flattened @ v) slices"

definition flatten :: "string list list \<Rightarrow> string list" where
  "flatten slices = flattenInto [] slices"

definition buildPlanCmd ::
  "golib \<Rightarrow> 'cfg PlanStepEnv \<Rightarrow> 'cfg ProjectCommandContext \<Rightarrow> string list \<Rightarrow> string \<Rightarrow> Version
     \<Rightarrow> string list" where
  "buildPlanCmd lib env ctx extraArgs path tfVersion =
     (let planFile = filepath_Join lib
            [path, GetPlanFilename env (ProjectCommandContext.Workspace ctx) (ProjectConfig ctx)];
          envFile = filepath_Join lib
            [path, ''env'', ProjectCommandContext.Workspace ctx @ ''.tfvars''];
          envFileArgs = (if os_Stat_ok env envFile then [''-var-file'', envFile] else [])
      in flatten
           [[''plan'', ''-input=false'', ''-refresh'', ''-no-color'', ''-out'',
             strconv_Quote lib planFile],
            tfVars lib env ctx tfVersion,
            extraArgs,
            CommentArgs ctx,
            envFileArgs])"

section \<open>Deleting a lock over HTTP (LocksController.DeleteLock)\<close>

text \<open>
  \<open>url.PathUnescape\<close>: every percent sign must be followed by two hexadecimal digits,
  which it replaces by the byte they denote; the first percent sign that is not makes the
  whole call fail with an \<open>EscapeError\<close> quoting at most three bytes from there. A plus
  sign stays a plus sign.
\<close>

definition ishex :: "char \<Rightarrow> bool" where
  "ishex c \<longleftrightarrow>
     (CHR ''0'' \<le> c \<and> c \<le> CHR ''9'') \<or> (CHR ''a'' \<le> c \<and> c \<le> CHR ''f'') \<or>
     (CHR ''A'' \<le> c \<and> c \<le> CHR ''F'')"

definition unhex :: "char \<Rightarrow> nat" where
  "unhex c =
     (if CHR ''0'' \<le> c \<and> c \<le> CHR ''9'' then of_char c - of_char CHR ''0''
      else if CHR ''a'' \<le> c \<and> c \<le> CHR ''f'' then of_char c - of_char CHR ''a'' + 10
      else if CHR ''A'' \<le> c \<and> c \<le> CHR ''F'' then of_char c - of_char CHR ''A'' + 10
      else 0)"

definition EscapeError :: "golib \<Rightarrow> string \<Rightarrow> error" where
  "EscapeError lib s = Err (''invalid URL escape '' @ strconv_Quote lib (take 3 s))"

fun url_PathUnescape :: "golib \<Rightarrow> string \<Rightarrow> error + string" where
  "url_PathUnescape lib [] = Inr []"
| "url_PathUnescape lib (c # s) =
     (if c = CHR ''%'' then
        (case s of
           a # b # rest \<Rightarrow>
             (if ishex a \<and> ishex b then
                (case url_PathUnescape lib rest of
                   Inl err \<Rightarrow> Inl err
                 | Inr t \<Rightarrow> Inr (char_of (unhex a * 16 + unhex b) # t))
              else Inl (EscapeError lib (c # s)))
         | _ \<Rightarrow> Inl (EscapeError lib (c # s)))
      else
        (case url_PathUnescape lib s of
           Inl err \<Rightarrow> Inl err
         | Inr t \<Rightarrow> Inr (c # t)))"

text \<open>
  The response written by \<open>respond\<close>: the status code and the message followed by a
  newline (\<open>fmt.Fprintln\<close>). Log lines are not modelled.
\<close>

record Response =
  code :: nat
  body :: string

definition respond :: "nat \<Rightarrow> string \<Rightarrow> Response" where
  "respond responseCode response = \<lparr>code = responseCode, body = response @ [CHR 0x0A]\<rparr>"

text \<open>
  The controller's collaborators. \<open>DeleteLockCommand.DeleteLock\<close> is an interface value:
  a function on the lock bucket that returns the deleted lock, nil, or an error.
  \<open>WorkingDirLocker.TryLock\<close> gives \<open>None\<close> when the lock on the working directory is
  obtained. The other collaborators are called for their effect, their errors are only
  logged; the calls made are recorded in order.
\<close>

datatype call =
    WorkingDirLocker_TryLock string int string
  | WorkingDir_DeleteForWorkspace Repo PullRequest string
  | DB_UpdateProjectStatus PullRequest string string
  | VCSClient_CreateComment Repo int string string
  | WorkingDirLocker_unlock

record LocksController =
  DeleteLockCommand :: "string \<Rightarrow> bucket \<Rightarrow> (error + ProjectLock option) \<times> bucket"
  WorkingDirLocker :: "string \<Rightarrow> int \<Rightarrow> string \<Rightarrow> error option"


definition Repo_zero :: Repo where
  "Repo_zero = \<lparr>FullName = '''', Owner = '''', Name = '''', CloneURL = '''',
     SanitizedCloneURL = '''', VCSHost = \<lparr>Hostname = '''', Type = 0\<rparr>\<rparr>"

definition discardedComment :: "string \<Rightarrow> string \<Rightarrow> string" where
  "discardedComment dir workspace =
     ''**Warning**: The plan for dir: `'' @ dir @ ''` workspace: `'' @ workspace @
     ''` was **discarded** via the Atlantis UI.'' @ [CHR 0x0A, CHR 0x0A] @
     ''To `apply` this plan you must run `plan` again.''"

text \<open>
  What \<open>DeleteLock\<close> does once the lock is deleted: nothing when the lock's pull request
  has the zero \<open>BaseRepo\<close>; otherwise it deletes the working directory (when the working
  dir lock is obtained), marks the project status discarded, comments on the pull request,
  and the deferred \<open>unlock\<close> runs last.
\<close>

definition afterDelete :: "LocksController \<Rightarrow> ProjectLock \<Rightarrow> call list" where
  "afterDelete l lock =
     (let pull = ProjectLock.Pull lock; baseRepo = PullRequest.BaseRepo pull;
          workspace = ProjectLock.Workspace lock in
      if baseRepo \<noteq> Repo_zero then
        (case WorkingDirLocker l (FullName baseRepo) (Num pull) workspace of
           Some err \<Rightarrow>
             [WorkingDirLocker_TryLock (FullName baseRepo) (Num pull) workspace,
              DB_UpdateProjectStatus pull workspace (Project.Path (ProjectLock.Project lock)),
              VCSClient_CreateComment baseRepo (Num pull)
                (discardedComment (Project.Path (ProjectLock.Project lock)) workspace) '''']
         | None \<Rightarrow>
             [WorkingDirLocker_TryLock (FullName baseRepo) (Num pull) workspace,
              WorkingDir_DeleteForWorkspace baseRepo pull workspace,
              DB_UpdateProjectStatus pull workspace (Project.Path (ProjectLock.Project lock)),
              VCSClient_CreateComment baseRepo (Num pull)
                (discardedComment (Project.Path (ProjectLock.Project lock)) workspace) '''',
              WorkingDirLocker_unlock])
      else [])"

text \<open>
  \<open>DeleteLock\<close>: \<open>idVar\<close> is \<open>mux.Vars(r)["id"]\<close>, \<open>None\<close> when the route has no id.
  The result is the response, the calls made to the collaborators, and the bucket.
\<close>

definition DeleteLock ::
  "golib \<Rightarrow> LocksController \<Rightarrow> string option \<Rightarrow> bucket \<Rightarrow> (Response \<times> call list) \<times> bucket" where
  "DeleteLock lib l idVar b =
     (case idVar of
        None \<Rightarrow> ((respond 400 ''No lock id in request'', []), b)
      | Some id' \<Rightarrow>
          if id' = '''' then ((respond 400 ''No lock id in request'', []), b)
          else
            (case url_PathUnescape lib id' of
               Inl err \<Rightarrow>
                 ((respond 400 (''Invalid lock id '' @ strconv_Quote lib id' @
                     ''. Failed with error: '' @ Error_string err), []), b)
             | Inr idUnencoded \<Rightarrow>
                 (case DeleteLockCommand l idUnencoded b of
                    (Inl err, b') \<Rightarrow>
                      ((respond 500 (''deleting lock failed with: '' @ Error_string err), []), b')
                  | (Inr None, b') \<Rightarrow>
                      ((respond 404 (''No lock found at id '' @ strconv_Quote lib idUnencoded), []),
                       b')
                  | (Inr (Some lock), b') \<Rightarrow>
                      ((respond 200 (''Deleted lock id '' @ strconv_Quote lib id'),
                        afterDelete l lock), b'))))"

text \<open>
  Modelled from the spec: the delete-by-id operation of the lock admin surface (section
  4.J), whose source is not among the files. It looks the id up as a lock key, returns
  nil (not an error) when the id matches no lock, and otherwise deletes the lock and
  returns it; a stored value that does not decode is a storage error.
\<close>

definition DeleteByID :: "string \<Rightarrow> bucket \<Rightarrow> (error + ProjectLock option) \<times> bucket" where
  "DeleteByID id' b =
     (case bucket_Get b id' of
        None \<Rightarrow> (Inr None, b)
      | Some serialized \<Rightarrow>
          (case json_Unmarshal serialized of
             Inl err \<Rightarrow> (Inl err, b)
           | Inr lock \<Rightarrow> (Inr (Some lock), bucket_Delete b id')))"

section \<open>The apply executor (ApplyExecutor.Execute, ApplyExecutor.apply)\<close>

text \<open>
  \<open>Command\<close> is the struct of the event parser. Modelled from the spec: the command
  names, the command context, \<open>models.Plan\<close>, the project config, the results of the
  pre-executor and of the lock client, and the webhook's \<open>ApplyResult\<close>, whose declarations
  are not among the sources; the fields are those the apply executor reads or writes.
  \<open>CommandResponse\<close> has the fields of \<open>CommandResult\<close>.
\<close>

datatype CommandName = PlanCommand | ApplyCommand | HelpCommand | UnlockCommand

record Command =
  Name :: CommandName
  Workspace :: string
  Verbose :: bool
  Flags :: "string list"
  Dir :: string

record CommandContext =
  BaseRepo :: Repo
  HeadRepo :: Repo
  Pull :: PullRequest
  User :: User
  Command :: Command

record Plan =
  Project :: Project
  LocalPath :: string

type_synonym CommandResponse = CommandResult

record ProjectConfig =
  PostApply :: "string list"

record TryLockResponse =
  LockAcquired :: bool
  CurrLock :: ProjectLock
  LockKey :: string

record PreExecuteResult =
  ProjectResult :: ProjectResult
  ProjectConfig :: ProjectConfig
  TerraformVersion :: Version
  LockResponse :: TryLockResponse

record ApplyResult =
  Workspace :: string
  User :: User
  Repo :: Repo
  Pull :: PullRequest
  Success :: bool

text \<open>
  The tree that \<open>filepath.Walk\<close> finds at a root: a file (anything that is not a
  directory), a directory with its entries in the order \<open>Walk\<close> visits them, or an entry
  on which \<open>Lstat\<close> or the reading of the directory fails.
\<close>

datatype fsnode = File | Directory "(string \<times> fsnode) list" | Broken error

text \<open>
  The executor's fields, and the operating system as the executor sees it. The
  pre-executor works on the lock bucket. Terraform and the hooks are external processes:
  functions from their arguments to the output and the error. \<open>GetExtraArguments\<close> is
  the method of the project config, asked with the name of the command;
  \<open>NewProject\<close> is the constructor of \<open>models.Project\<close>. \<open>os_Stat\<close> gives the error, or
  whether the path is a directory; \<open>os_Tree\<close> gives the name and the tree that
  \<open>filepath.Walk\<close> meets at a root. The host argument of \<open>PullIsApproved\<close> and the log
  are left out.
\<close>

record ApplyExecutor =
  RequireApproval :: bool
  VCSClient_PullIsApproved :: "Repo \<Rightarrow> PullRequest \<Rightarrow> error + bool"
  AtlantisWorkspace_GetWorkspace :: "Repo \<Rightarrow> PullRequest \<Rightarrow> string \<Rightarrow> error + string"
  ProjectPreExecute :: "CommandContext \<Rightarrow> string \<Rightarrow> Project \<Rightarrow> bucket \<Rightarrow> PreExecuteResult \<times> bucket"
  Terraform_RunCommandWithVersion ::
    "string \<Rightarrow> string list \<Rightarrow> Version \<Rightarrow> string \<Rightarrow> string \<times> error option"
  Run_Execute ::
    "string list \<Rightarrow> string \<Rightarrow> string \<Rightarrow> Version \<Rightarrow> string \<Rightarrow> string \<times> error option"
  GetExtraArguments :: "ProjectConfig \<Rightarrow> CommandName \<Rightarrow> string list"
  NewProject :: "string \<Rightarrow> string \<Rightarrow> Project"
  os_Stat :: "string \<Rightarrow> error + bool"
  os_Tree :: "string \<Rightarrow> string \<times> fsnode"

record World =
  locks :: bucket
  webhooks :: "ApplyResult list"

definition ProjectResult_zero :: ProjectResult where
  "ProjectResult_zero =
     \<lparr>ProjectResult.Path = '''', ProjectResult.Error = None, ProjectResult.Failure = '''',
      PlanSuccess = None, ApplySuccess = ''''\<rparr>"

definition CommandResponse_zero :: CommandResponse where
  "CommandResponse_zero =
     \<lparr>CommandResult.Error = None, CommandResult.Failure = '''', ProjectResults = []\<rparr>"

text \<open>
  \<open>apply\<close>: the pre-executor, the Terraform run, the webhook, the \<open>post_apply\<close> hooks.
\<close>

definition ApplyExecutor_apply ::
  "golib \<Rightarrow> ApplyExecutor \<Rightarrow> CommandContext \<Rightarrow> string \<Rightarrow> Plan \<Rightarrow> World \<Rightarrow> ProjectResult \<times> World" where
  "ApplyExecutor_apply lib a ctx repoDir plan w =
     (case ProjectPreExecute a ctx repoDir (Plan.Project plan) (locks w) of
        (preExecute, b') \<Rightarrow>
          let w1 = w\<lparr>locks := b'\<rparr> in
          if PreExecuteResult.ProjectResult preExecute \<noteq> ProjectResult_zero
          then (PreExecuteResult.ProjectResult preExecute, w1)
          else
            let config = PreExecuteResult.ProjectConfig preExecute;
                terraformVersion = TerraformVersion preExecute;
                applyExtraArgs =
                  GetExtraArguments a config (Command.Name (CommandContext.Command ctx));
                absolutePath = filepath_Join lib [repoDir, Project.Path (Plan.Project plan)];
                workspace = Command.Workspace (CommandContext.Command ctx);
                tfApplyCmd = [''apply'', ''-no-color''] @ applyExtraArgs @
                  Flags (CommandContext.Command ctx) @ [LocalPath plan];
                ran = Terraform_RunCommandWithVersion a absolutePath tfApplyCmd terraformVersion
                  workspace;
                output = fst ran;
                err = snd ran;
                w2 = w1\<lparr>webhooks := webhooks w1 @
                  [\<lparr>ApplyResult.Workspace = workspace, ApplyResult.User = CommandContext.User ctx,
                    Repo = CommandContext.BaseRepo ctx, ApplyResult.Pull = CommandContext.Pull ctx,
                    Success = (err = None)\<rparr>]\<rparr>
            in
              (case err of
                 Some e \<Rightarrow>
                   (ProjectResult_zero\<lparr>ProjectResult.Error :=
                      Some (Err (Error_string e @ [CHR 0x0A] @ output))\<rparr>, w2)
               | None \<Rightarrow>
                   if PostApply config \<noteq> [] then
                     (case snd (Run_Execute a (PostApply config) absolutePath workspace
                                  terraformVersion ''post_apply'') of
                        Some e \<Rightarrow>
                          (ProjectResult_zero\<lparr>ProjectResult.Error :=
                             Some (errors_Wrap e ''running post apply commands'')\<rparr>, w2)
                      | None \<Rightarrow> (ProjectResult_zero\<lparr>ApplySuccess := output\<rparr>, w2))
                   else (ProjectResult_zero\<lparr>ApplySuccess := output\<rparr>, w2)))"

text \<open>
  The walk of \<open>Execute\<close> with its callback: an error stops the walk; a file named
  \<open>{Workspace}.tfplan\<close> adds a plan whose project path is the file's directory relative
  to the walk's root.
\<close>

definition planAt :: "golib \<Rightarrow> ApplyExecutor \<Rightarrow> CommandContext \<Rightarrow> string \<Rightarrow> string \<Rightarrow> Plan" where
  "planAt lib a ctx repoDir path =
     \<lparr>Plan.Project = NewProject a (FullName (CommandContext.BaseRepo ctx))
        (filepath_Rel lib repoDir (filepath_Dir lib path)),
      LocalPath = path\<rparr>"

fun walk ::
    "golib \<Rightarrow> ApplyExecutor \<Rightarrow> CommandContext \<Rightarrow> string \<Rightarrow> string \<Rightarrow> string \<Rightarrow> fsnode \<Rightarrow> Plan list
       \<Rightarrow> error + Plan list"
  and walkNames ::
    "golib \<Rightarrow> ApplyExecutor \<Rightarrow> CommandContext \<Rightarrow> string \<Rightarrow> string \<Rightarrow> (string \<times> fsnode) list
       \<Rightarrow> Plan list \<Rightarrow> error + Plan list" where
  "walk lib a ctx repoDir path name File plans =
     Inr (if name = Command.Workspace (CommandContext.Command ctx) @ ''.tfplan''
          then plans @ [planAt lib a ctx repoDir path] else plans)"
| "walk lib a ctx repoDir path name (Broken err) plans = Inl err"
| "walk lib a ctx repoDir path name (Directory names) plans =
     walkNames lib a ctx repoDir path names plans"
| "walkNames lib a ctx repoDir path [] plans = Inr plans"
| "walkNames lib a ctx repoDir path ((name, node) # names) plans =
     (case walk lib a ctx repoDir (filepath_Join lib [path, name]) name node plans of
        Inl err \<Rightarrow> Inl err
      | Inr plans' \<Rightarrow> walkNames lib a ctx repoDir path names plans')"

text \<open>
  The part of \<open>Execute\<close> that collects the plans: \<open>Inl\<close> is the response of an early
  return. The error message holds an en dash, three bytes in UTF-8.
\<close>

definition noPlanFound :: "golib \<Rightarrow> string \<Rightarrow> string \<Rightarrow> error" where
  "noPlanFound lib dir workspace =
     Err (''no plan found at path '' @ strconv_Quote lib dir @ '' and workspace '' @
          strconv_Quote lib workspace @ [CHR 0xE2, CHR 0x80, CHR 0x93] @ ''did you run plan?'')"

definition findPlans ::
  "golib \<Rightarrow> ApplyExecutor \<Rightarrow> CommandContext \<Rightarrow> string \<Rightarrow> CommandResponse + Plan list" where
  "findPlans lib a ctx repoDir =
     (let command = CommandContext.Command ctx in
      if Dir command = '''' then
        (case walk lib a ctx repoDir repoDir (fst (os_Tree a repoDir)) (snd (os_Tree a repoDir)) [] of
           Inl err \<Rightarrow>
             Inl (CommandResponse_zero\<lparr>CommandResult.Error := Some (errors_Wrap err ''finding plans'')\<rparr>)
         | Inr plans \<Rightarrow> Inr plans)
      else
        (let planPath = filepath_Join lib [repoDir, Dir command, Command.Workspace command @ ''.tfplan'']
         in case os_Stat a planPath of
              Inr False \<Rightarrow> Inr [planAt lib a ctx repoDir planPath]
            | _ \<Rightarrow>
                Inl (CommandResponse_zero\<lparr>CommandResult.Error :=
                  Some (noPlanFound lib (Dir command) (Command.Workspace command))\<rparr>)))"

fun applyEach ::
  "golib \<Rightarrow> ApplyExecutor \<Rightarrow> CommandContext \<Rightarrow> string \<Rightarrow> Plan list \<Rightarrow> World
     \<Rightarrow> ProjectResult list \<times> World" where
  "applyEach lib a ctx repoDir [] w = ([], w)"
| "applyEach lib a ctx repoDir (plan # plans) w =
     (case ApplyExecutor_apply lib a ctx repoDir plan w of
        (result, w') \<Rightarrow>
          (case applyEach lib a ctx repoDir plans w' of
             (results, w'') \<Rightarrow> (result\<lparr>ProjectResult.Path := LocalPath plan\<rparr> # results, w'')))"

definition ApplyExecutor_Execute ::
  "golib \<Rightarrow> ApplyExecutor \<Rightarrow> CommandContext \<Rightarrow> World \<Rightarrow> CommandResponse \<times> World" where
  "ApplyExecutor_Execute lib a ctx w =
     (let approval =
            (if RequireApproval a then
               (case VCSClient_PullIsApproved a (CommandContext.BaseRepo ctx) (CommandContext.Pull ctx) of
                  Inl err \<Rightarrow>
                    Some (CommandResponse_zero\<lparr>CommandResult.Error :=
                      Some (errors_Wrap err ''checking if pull request was approved'')\<rparr>)
                | Inr approved \<Rightarrow>
                    if \<not> approved then
                      Some (CommandResponse_zero\<lparr>CommandResult.Failure :=
                        ''Pull request must be approved before running apply.''\<rparr>)
                    else None)
             else None)
      in case approval of
           Some response \<Rightarrow> (response, w)
         | None \<Rightarrow>
             (case AtlantisWorkspace_GetWorkspace a (CommandContext.BaseRepo ctx)
                     (CommandContext.Pull ctx) (Command.Workspace (CommandContext.Command ctx)) of
                Inl err \<Rightarrow>
                  (CommandResponse_zero\<lparr>CommandResult.Failure :=
                     ''No workspace found. Did you run plan?''\<rparr>, w)
              | Inr repoDir \<Rightarrow>
                  (case findPlans lib a ctx repoDir of
                     Inl response \<Rightarrow> (response, w)
                   | Inr plans \<Rightarrow>
                       if length plans = 0 then
                         (CommandResponse_zero\<lparr>CommandResult.Failure :=
                            ''No plans found for that workspace.''\<rparr>, w)
                       else
                         (case applyEach lib a ctx repoDir plans w of
                            (results, w') \<Rightarrow>
                              (CommandResponse_zero\<lparr>ProjectResults := results\<rparr>, w')))))"


fun readable :: "fsnode \<Rightarrow> bool" and readableAll :: "(string \<times> fsnode) list \<Rightarrow> bool" where
  "readable File = True"
| "readable (Broken err) = False"
| "readable (Directory names) = readableAll names"
| "readableAll [] = True"
| "readableAll ((name, node) # names) = (readable node \<and> readableAll names)"



text \<open>
  Modelled from the spec: the project pre-executor (section 4.F), whose source is not
  among the files. It loads the project config and resolves the tool version, then calls
  \<open>TryLock\<close> for the project and the command's workspace in the name of the pull request;
  a lock held by another pull request is a Failure, a lock held by this pull request counts
  as acquired (design note on re-entrant locks); then it runs init. A failure after the
  lock has been acquired releases the lock. Config, version, the init run, the clock and
  the text of the Failure are inputs.
\<close>

record PreExecuteInputs =
  loadConfig :: "error + ProjectConfig"
  resolveVersion :: "error + Version"
  runInit :: "error option"
  now :: int
  heldBy :: "ProjectLock \<Rightarrow> string"

definition preExecute ::
  "golib \<Rightarrow> PreExecuteInputs \<Rightarrow> CommandContext \<Rightarrow> string \<Rightarrow> Project \<Rightarrow> bucket \<Rightarrow>
     PreExecuteResult \<times> bucket" where
  "preExecute lib inp ctx repoDir project b =
     (let none = \<lparr>PreExecuteResult.ProjectResult = ProjectResult_zero,
                  PreExecuteResult.ProjectConfig = \<lparr>PostApply = []\<rparr>,
                  TerraformVersion = '''',
                  LockResponse = \<lparr>LockAcquired = False,
                    CurrLock = \<lparr>ProjectLock.Project = project, ProjectLock.Pull = CommandContext.Pull ctx,
                      ProjectLock.User = CommandContext.User ctx,
                      ProjectLock.Workspace = Command.Workspace (CommandContext.Command ctx),
                      Time = now inp\<rparr>,
                    LockKey = lockKey project (Command.Workspace (CommandContext.Command ctx))\<rparr>\<rparr>;
          failed = (\<lambda>r. none\<lparr>PreExecuteResult.ProjectResult := r\<rparr>)
      in case loadConfig inp of
           Inl err \<Rightarrow> (failed (ProjectResult_zero\<lparr>ProjectResult.Error := Some err\<rparr>), b)
         | Inr config \<Rightarrow>
             (case resolveVersion inp of
                Inl err \<Rightarrow> (failed (ProjectResult_zero\<lparr>ProjectResult.Error := Some err\<rparr>), b)
              | Inr version \<Rightarrow>
                  (case TryLock lib (CurrLock (LockResponse none)) b of
                     (Inl err, b') \<Rightarrow>
                       (failed (ProjectResult_zero\<lparr>ProjectResult.Error := Some err\<rparr>), b')
                   | (Inr (acquired, holder), b') \<Rightarrow>
                       if \<not> acquired \<and>
                          (Num (ProjectLock.Pull holder) \<noteq> Num (CommandContext.Pull ctx) \<or>
                           FullName (PullRequest.BaseRepo (ProjectLock.Pull holder))
                             \<noteq> FullName (PullRequest.BaseRepo (CommandContext.Pull ctx)))
                       then (failed (ProjectResult_zero\<lparr>ProjectResult.Failure := heldBy inp holder\<rparr>), b')
                       else
                         (case runInit inp of
                            Some err \<Rightarrow>
                              (failed (ProjectResult_zero\<lparr>ProjectResult.Error := Some err\<rparr>),
                               snd (Unlock project (Command.Workspace (CommandContext.Command ctx)) b'))
                          | None \<Rightarrow>
                              (\<lparr>PreExecuteResult.ProjectResult = ProjectResult_zero,
                                PreExecuteResult.ProjectConfig = config,
                                TerraformVersion = version,
                                LockResponse = \<lparr>LockAcquired = True, CurrLock = holder,
                                  LockKey = lockKey project
                                    (Command.Workspace (CommandContext.Command ctx))\<rparr>\<rparr>, b')))))"

section \<open>Example values\<close>

definition repoA :: Repo where
  "repoA = \<lparr>FullName = ''owner/repo'', Owner = ''owner'', Repo.Name = ''repo'',
     CloneURL = ''https://u:p@github.com/owner/repo.git'',
     SanitizedCloneURL = ''https://github.com/owner/repo.git'',
     VCSHost = \<lparr>Hostname = ''github.com'', Type = 0\<rparr>\<rparr>"

definition repoB :: Repo where
  "repoB = \<lparr>FullName = ''owner/repo-b'', Owner = ''owner'', Repo.Name = ''repo-b'',
     CloneURL = ''https://u:p@github.com/owner/repo-b.git'',
     SanitizedCloneURL = ''https://github.com/owner/repo-b.git'',
     VCSHost = \<lparr>Hostname = ''github.com'', Type = 0\<rparr>\<rparr>"

definition pullOf :: "Repo \<Rightarrow> int \<Rightarrow> PullRequest" where
  "pullOf r n = \<lparr>Num = n, HeadCommit = ''abc123'', URL = ''https://github.com/pull'',
     Branch = ''feature'', Author = ''lkysow'', State = Open, PullRequest.BaseRepo = r\<rparr>"

definition lockOf :: "Repo \<Rightarrow> string \<Rightarrow> string \<Rightarrow> int \<Rightarrow> ProjectLock" where
  "lockOf r path workspace n =
     \<lparr>ProjectLock.Project = \<lparr>RepoFullName = FullName r, Project.Path = path\<rparr>,
      ProjectLock.Pull = pullOf r n, ProjectLock.User = \<lparr>Username = ''lkysow''\<rparr>,
      ProjectLock.Workspace = workspace, Time = 0\<rparr>"

text \<open>
  Stand-ins for the Go library on clean, slash-separated paths and on locks of valid UTF-8
  with a time in range: joining with a slash, the directory of a path, a path relative to
  a prefix, quoting a string that needs no escape, decimal digits, a JSON text that reads
  back as the lock that went in, and a length for it that covers the strings of the lock.
\<close>

fun joinSlash :: "string list \<Rightarrow> string" where
  "joinSlash [] = []"
| "joinSlash [x] = x"
| "joinSlash (x # y # ys) = x @ ''/'' @ joinSlash (y # ys)"

definition dirOf :: "string \<Rightarrow> string" where
  "dirOf p = rev (drop 1 (dropWhile (\<lambda>c. c \<noteq> CHR ''/'') (rev p)))"

definition relTo :: "string \<Rightarrow> string \<Rightarrow> string" where
  "relTo base target = (if target = base then ''.'' else drop (length base + 1) target)"

definition quoted :: "string \<Rightarrow> string" where
  "quoted s = [CHR 0x22] @ s @ [CHR 0x22]"

fun digits :: "nat \<Rightarrow> string" where
  "digits n = (if n < 10 then [char_of (48 + n)] else digits (n div 10) @ [char_of (48 + n mod 10)])"

definition itoa :: "int \<Rightarrow> string" where
  "itoa i = (if i < 0 then ''-'' @ digits (nat (- i)) else digits (nat i))"

fun jsonLen :: "blob \<Rightarrow> nat" where
  "jsonLen (Json l) =
     256 + length (RepoFullName (ProjectLock.Project l)) + length (Project.Path (ProjectLock.Project l)) +
     length (ProjectLock.Workspace l)"
| "jsonLen (Garbage e) = 0"

definition goLib :: golib where
  "goLib = \<lparr>filepath_Join = joinSlash, filepath_Rel = relTo, filepath_Dir = dirOf,
     strconv_Quote = quoted, strconv_Itoa = itoa,
     json_Marshal = (\<lambda>l. Inr (Json l)), len_bytes = jsonLen\<rparr>"


definition planCtx :: "unit ProjectCommandContext" where
  "planCtx = \<lparr>ProjectCommandContext.BaseRepo = repoA, ProjectCommandContext.Pull = pullOf repoA 1,
     ProjectCommandContext.User = \<lparr>Username = ''lkysow''\<rparr>,
     ProjectCommandContext.Workspace = ''prod'', CommentArgs = [''-target=aws_instance.web''],
     ProjectCommandContext.ProjectConfig = None\<rparr>"

definition planEnv :: "unit PlanStepEnv" where
  "planEnv = \<lparr>os_Stat_ok = (\<lambda>p. p = ''/repo/env/prod.tfvars''),
     GetPlanFilename = (\<lambda>workspace cfg. workspace @ ''.tfplan''),
     vTwelveAndUp_Check = (\<lambda>v. v = ''0.12.0'')\<rparr>"

definition controller :: LocksController where
  "controller = \<lparr>DeleteLockCommand = DeleteByID, WorkingDirLocker = (\<lambda>repo num workspace. None)\<rparr>"

definition oldLock :: ProjectLock where
  "oldLock = (lockOf repoA ''.'' ''default'' 1)\<lparr>ProjectLock.Pull := pullOf Repo_zero 1\<rparr>"

definition applyCtx :: CommandContext where
  "applyCtx = \<lparr>CommandContext.BaseRepo = repoA, HeadRepo = repoA,
     CommandContext.Pull = pullOf repoA 1, CommandContext.User = \<lparr>Username = ''lkysow''\<rparr>,
     Command = \<lparr>Command.Name = ApplyCommand, Command.Workspace = ''default'', Verbose = False,
       Flags = [], Dir = ''''\<rparr>\<rparr>"


definition workspaceTree :: fsnode where
  "workspaceTree =
     Directory [(''default.tfplan'', File), (''main.tf'', File),
                (''modules'', Directory [(''db'', Directory [(''default.tfplan'', File),
                                                           (''staging.tfplan'', File)])])]"

definition preInputs :: PreExecuteInputs where
  "preInputs = \<lparr>loadConfig = Inr \<lparr>PostApply = []\<rparr>,
     resolveVersion = Inr ''0.11.7'', runInit = None, now = 0,
     heldBy = (\<lambda>holder. ''This project is currently locked by another pull request.'')\<rparr>"

definition executor :: "fsnode \<Rightarrow> ApplyExecutor" where
  "executor tree = \<lparr>RequireApproval = False,
     VCSClient_PullIsApproved = (\<lambda>repo pull. Inr True),
     AtlantisWorkspace_GetWorkspace = (\<lambda>repo pull workspace. Inr ''/d''),
     ProjectPreExecute = preExecute goLib preInputs,
     Terraform_RunCommandWithVersion = (\<lambda>path args version workspace. (''Apply complete!'', None)),
     Run_Execute = (\<lambda>commands path workspace version stage. ('''', None)),
     GetExtraArguments = (\<lambda>config name. []),
     NewProject = (\<lambda>repoFullName path. \<lparr>RepoFullName = repoFullName, Project.Path = path\<rparr>),
     os_Stat = (\<lambda>path. if path = ''/d/modules/db/default.tfplan'' then Inr False
                        else Inl (Err ''no such file or directory'')),
     os_Tree = (\<lambda>root. (''d'', tree))\<rparr>"

definition rootPlan :: Plan where
  "rootPlan = \<lparr>Plan.Project = \<lparr>RepoFullName = ''owner/repo'', Project.Path = ''.''\<rparr>,
     LocalPath = ''/d/default.tfplan''\<rparr>"

lemmas fixtures = repoA_def repoB_def pullOf_def lockOf_def

declare digits.simps [simp del]

section \<open>Facts about the bucket\<close>

lemma goLib_fields:
  "filepath_Join goLib = joinSlash" "filepath_Rel goLib = relTo" "filepath_Dir goLib = dirOf"
  "strconv_Quote goLib = quoted" "strconv_Itoa goLib = itoa"
  "json_Marshal goLib = (\<lambda>l. Inr (Json l))" "len_bytes goLib = jsonLen"
  by (simp_all add: goLib_def)

lemma Get_insert_same: "bucket_Get (bucket_insert b k v) k = Some v"
  by (induction b) (auto simp: bucket_Get_def)

lemma Get_insert_other: "k' \<noteq> k \<Longrightarrow> bucket_Get (bucket_insert b k v) k' = bucket_Get b k'"
  by (induction b) (auto simp: bucket_Get_def)

lemma lockKey_length:
  "length (lockKey p w) = length (RepoFullName p) + length (Project.Path p) + length w + 2"
  by (simp add: lockKey_def)

lemma Put_accepts:
  "length (lockKey p w) \<le> MaxKeySize \<Longrightarrow> len \<le> MaxValueSize \<Longrightarrow>
     bucket_Put b (lockKey p w) v len = Inr (bucket_insert b (lockKey p w) v)"
  by (simp add: bucket_Put_def lockKey_length)


section \<open>TryLock is a check-and-put\<close>

text \<open>
  What \<open>TryLock\<close> does. Nothing stored at the key, \<open>json.Marshal\<close> gives bytes, key and
  bytes within the limits of \<open>Put\<close>: it answers (true, newLock), the bucket then holds
  these bytes at the key and every other key reads as before. A value stored at the key
  that reads as the lock c: it answers (false, c) and the bucket is as it was. Nothing
  stored at the key and a key longer than \<open>MaxKeySize\<close>: it answers (true, newLock) and
  the bucket is as it was.
\<close>

lemma TryLock_stores:
  assumes "bucket_Get b (lockKey (ProjectLock.Project newLock) (ProjectLock.Workspace newLock)) = None"
    and "json_Marshal lib newLock = Inr v"
    and "length (lockKey (ProjectLock.Project newLock) (ProjectLock.Workspace newLock)) \<le> MaxKeySize"
    and "len_bytes lib v \<le> MaxValueSize"
  shows "fst (TryLock lib newLock b) = Inr (True, newLock)"
    and "bucket_Get (snd (TryLock lib newLock b))
           (lockKey (ProjectLock.Project newLock) (ProjectLock.Workspace newLock)) = Some v"
    and "k \<noteq> lockKey (ProjectLock.Project newLock) (ProjectLock.Workspace newLock) \<Longrightarrow>
           bucket_Get (snd (TryLock lib newLock b)) k = bucket_Get b k"
  using assms by (simp_all add: TryLock_def Let_def Put_accepts Get_insert_same Get_insert_other)

lemma TryLock_held:
  assumes "bucket_Get b (lockKey (ProjectLock.Project newLock) (ProjectLock.Workspace newLock)) = Some v"
    and "json_Unmarshal v = Inr c"
  shows "TryLock lib newLock b = (Inr (False, c), b)"
  using assms by (simp add: TryLock_def Let_def)



section \<open>One entry per key\<close>

lemma keys_insert: "fst ` set (bucket_insert b k v) = insert k (fst ` set b)"
proof (induction b)
  case Nil
  show ?case by simp
next
  case (Cons e es)
  obtain k' v' where e: "e = (k', v')" by (cases e)
  show ?case using Cons.IH by (auto simp: e)
qed

lemma sorted_insert: "strictly_sorted b \<Longrightarrow> strictly_sorted (bucket_insert b k v)"
proof (induction b)
  case Nil
  then show ?case by (simp add: strictly_sorted_def)
next
  case (Cons e es)
  obtain k' v' where e: "e = (k', v')" by (cases e)
  from Cons.prems have tl: "strictly_sorted es" and hd: "\<forall>x \<in> fst ` set es. k' < x"
    by (auto simp: strictly_sorted_def e)
  show ?case
  proof (cases "k < k'")
    case True
    with Cons.prems show ?thesis by (auto simp: strictly_sorted_def e)
  next
    case False
    show ?thesis
    proof (cases "k = k'")
      case True
      with Cons.prems show ?thesis by (auto simp: strictly_sorted_def e)
    next
      case ne: False
      with False have "k' < k" by simp
      with hd have "\<forall>x \<in> fst ` set (bucket_insert es k v). k' < x"
        by (simp add: keys_insert)
      with Cons.IH[OF tl] False ne show ?thesis
        by (simp add: strictly_sorted_def e)
    qed
  qed
qed

lemma sorted_Put:
  "strictly_sorted b \<Longrightarrow> strictly_sorted (case bucket_Put b k v len of Inl err \<Rightarrow> b | Inr b' \<Rightarrow> b')"
  by (simp add: bucket_Put_def sorted_insert)

lemma sorted_Delete: "strictly_sorted b \<Longrightarrow> strictly_sorted (bucket_Delete b k)"
  by (simp add: strictly_sorted_def bucket_Delete_def sorted_wrt_map sorted_wrt_filter)

lemma decodable_Delete: "decodable b \<Longrightarrow> decodable (bucket_Delete b k)"
  by (auto simp: decodable_def list_all_iff bucket_Delete_def)

lemma sorted_TryLock: "strictly_sorted b \<Longrightarrow> strictly_sorted (snd (TryLock lib newLock b))"
  by (simp add: TryLock_def Let_def sorted_Put split: option.splits sum.splits)

lemma sorted_Unlock: "strictly_sorted b \<Longrightarrow> strictly_sorted (snd (Unlock p w b))"
  by (auto simp: Unlock_def Let_def sorted_Delete split: option.splits sum.splits)

lemma sorted_unlockEach: "strictly_sorted b \<Longrightarrow> strictly_sorted (snd (unlockEach found b))"
proof (induction found arbitrary: b)
  case Nil
  then show ?case by simp
next
  case (Cons l ls)
  from Cons.prems
  have "strictly_sorted (snd (Unlock (ProjectLock.Project l) (ProjectLock.Workspace l) b))"
    by (rule sorted_Unlock)
  with Cons.IH show ?case
    by (cases "Unlock (ProjectLock.Project l) (ProjectLock.Workspace l) b") (auto split: sum.splits)
qed

lemma sorted_UnlockByPull:
  assumes "strictly_sorted b"
  shows "strictly_sorted (snd (UnlockByPull lib r n b))"
proof (cases "scanPull lib r n (cursor_Seek b r) []")
  case (Inl err)
  with assms show ?thesis by (simp add: UnlockByPull_def)
next
  case (Inr found)
  have "snd (UnlockByPull lib r n b) = snd (unlockEach found b)"
    by (cases "unlockEach found b") (simp add: UnlockByPull_def Inr split: option.splits)
  with sorted_unlockEach[OF assms] show ?thesis by simp
qed

lemma reachable_sorted: "reachable b \<Longrightarrow> strictly_sorted b"
proof (induction rule: reachable.induct)
  case New
  show ?case by (simp add: strictly_sorted_def)
qed (simp_all add: sorted_TryLock sorted_Unlock sorted_UnlockByPull)

lemma sorted_locksAt: "strictly_sorted b \<Longrightarrow> length (locksAt key b) \<le> 1"
proof (induction b)
  case Nil
  show ?case by (simp add: locksAt_def)
next
  case (Cons e es)
  from Cons.prems have tl: "strictly_sorted es" and hd: "\<forall>x \<in> set es. fst e < fst x"
    by (auto simp: strictly_sorted_def)
  show ?case
  proof (cases "fst e = key")
    case True
    with hd have "filter (\<lambda>x. fst x = key) es = []"
      by (auto simp: filter_empty_conv)
    with True show ?thesis by (simp add: locksAt_def)
  next
    case False
    with Cons.IH[OF tl] show ?thesis by (simp add: locksAt_def)
  qed
qed

text \<open>
  Claim C3. In every bucket the lock service can reach from the empty one by \<open>TryLock\<close>,
  \<open>Unlock\<close> and \<open>UnlockByPull\<close>, in any order and with any arguments, at most one
  entry is stored under a given key, the key of a project and workspace among them; the
  same holds of the bucket after one more \<open>TryLock\<close>, \<open>Unlock\<close> or \<open>UnlockByPull\<close>.
\<close>

theorem one_lock_per_key:
  assumes "reachable b"
  shows "\<forall>b' \<in> {b, snd (TryLock lib newLock b), snd (Unlock q w b), snd (UnlockByPull lib r n b)}.
           length (locksAt key b') \<le> 1 \<and> length (locksAt (lockKey p workspace) b') \<le> 1"
proof
  fix b'
  assume "b' \<in> {b, snd (TryLock lib newLock b), snd (Unlock q w b), snd (UnlockByPull lib r n b)}"
  with assms have "reachable b'"
    by (auto intro: reachable.intros)
  then have "strictly_sorted b'"
    by (rule reachable_sorted)
  then have "length (locksAt k b') \<le> 1" for k
    by (rule sorted_locksAt)
  then show "length (locksAt key b') \<le> 1 \<and> length (locksAt (lockKey p workspace) b') \<le> 1"
    by simp
qed

theorem one_lock_per_key_witness:
  "reachable (snd (TryLock goLib (lockOf repoA ''.'' ''default'' 1) [])) \<and>
   snd (TryLock goLib (lockOf repoA ''.'' ''default'' 1) []) =
     [(''owner/repo/./default'', Json (lockOf repoA ''.'' ''default'' 1))] \<and>
   length (locksAt ''owner/repo/./default'' (snd (TryLock goLib (lockOf repoA ''.'' ''default'' 1) []))) = 1 \<and>
   length (locksAt ''owner/repo/./default''
     (snd (TryLock goLib (lockOf repoA ''.'' ''default'' 2)
        (snd (TryLock goLib (lockOf repoA ''.'' ''default'' 1) []))))) = 1"
proof -
  let ?b = "snd (TryLock goLib (lockOf repoA ''.'' ''default'' 1) [])"
  have r: "reachable ?b" by (intro reachable.intros)
  from one_lock_per_key[OF r, where key = "''owner/repo/./default''" and lib = goLib
      and newLock = "lockOf repoA ''.'' ''default'' 2"] r
  show ?thesis
    by (simp add: fixtures lockKey_def bucket_Get_def TryLock_def locksAt_def bucket_Put_def
        goLib_fields MaxKeySize_def MaxValueSize_def)
qed

section \<open>Keys that collide\<close>

text \<open>
  Claim C10. The key is the repo full name, the path and the workspace joined with a
  slash, and nothing is escaped: in any repo R, path \<open>a/b\<close> with workspace \<open>c\<close> and path
  \<open>a\<close> with workspace \<open>b/c\<close> are different (project, workspace) pairs, and the key of
  both is R followed by \<open>/a/b/c\<close>; while a lock of the first is stored there, \<open>TryLock\<close>
  for the second answers (false, that lock) and leaves the bucket as it was.
\<close>

theorem lockKey_collision:
  assumes "ProjectLock.Project l1 = \<lparr>RepoFullName = R, Project.Path = ''a/b''\<rparr>" "ProjectLock.Workspace l1 = ''c''"
    and "ProjectLock.Project l2 = \<lparr>RepoFullName = R, Project.Path = ''a''\<rparr>" "ProjectLock.Workspace l2 = ''b/c''"
  shows "lockKey p workspace = RepoFullName p @ ''/'' @ Project.Path p @ ''/'' @ workspace \<and>
    (ProjectLock.Project l1, ProjectLock.Workspace l1) \<noteq> (ProjectLock.Project l2, ProjectLock.Workspace l2) \<and>
    lockKey (ProjectLock.Project l1) (ProjectLock.Workspace l1) = R @ ''/a/b/c'' \<and>
    lockKey (ProjectLock.Project l2) (ProjectLock.Workspace l2) = R @ ''/a/b/c'' \<and>
    (bucket_Get b (R @ ''/a/b/c'') = Some (Json l1) \<longrightarrow>
       TryLock lib l2 b = (Inr (False, l1), b))"
  using assms by (simp add: lockKey_def TryLock_def)

theorem lockKey_collision_witness:
  "lockKey (ProjectLock.Project (lockOf repoA ''a/b'' ''c'' 1)) ''c'' = ''owner/repo/a/b/c'' \<and>
   lockKey (ProjectLock.Project (lockOf repoA ''a'' ''b/c'' 2)) ''b/c'' = ''owner/repo/a/b/c'' \<and>
   TryLock goLib (lockOf repoA ''a/b'' ''c'' 1) [] =
     (Inr (True, lockOf repoA ''a/b'' ''c'' 1),
      [(''owner/repo/a/b/c'', Json (lockOf repoA ''a/b'' ''c'' 1))]) \<and>
   TryLock goLib (lockOf repoA ''a'' ''b/c'' 2)
       [(''owner/repo/a/b/c'', Json (lockOf repoA ''a/b'' ''c'' 1))] =
     (Inr (False, lockOf repoA ''a/b'' ''c'' 1),
      [(''owner/repo/a/b/c'', Json (lockOf repoA ''a/b'' ''c'' 1))])"
  using lockKey_collision[of "lockOf repoA ''a/b'' ''c'' 1" "''owner/repo''"
     "lockOf repoA ''a'' ''b/c'' 2" "\<lparr>RepoFullName = ''owner/repo'', Project.Path = ''a/b''\<rparr>" "''c''"
     "[(''owner/repo/a/b/c'', Json (lockOf repoA ''a/b'' ''c'' 1))]" goLib]
  by (simp add: fixtures lockKey_def bucket_Get_def TryLock_def bucket_Put_def goLib_fields
      MaxKeySize_def MaxValueSize_def)

section \<open>UnlockByPull and repo names that extend one another\<close>

text \<open>
  What \<open>UnlockByPull\<close> does on a bucket whose keys ascend, whose values all read as
  locks and whose locks are each stored under the key of their own project and workspace
  (\<open>store_inv\<close>; a lock that \<open>json.Marshal\<close> wrote changed need not be stored under its
  own key). In byte order the keys that start with the repo name form one run that begins
  where \<open>Seek\<close> lands, so the cursor loop finds every entry whose key has that prefix and
  whose lock has the pull number; the second loop deletes exactly these entries. Every
  lock of the pull request of that repo is among them, and so is a lock with that pull
  number of any repo whose name merely starts with the repo name.
\<close>

lemma prefix_le: "prefix (r :: string) k \<Longrightarrow> r \<le> k"
proof (induction r arbitrary: k)
  case Nil
  show ?case by simp
next
  case (Cons c cs)
  then obtain ks where "k = c # ks" "prefix cs ks"
    by (cases k) auto
  with Cons.IH show ?case by simp
qed

lemma past_prefix:
  "(r :: string) \<le> k \<Longrightarrow> \<not> prefix r k \<Longrightarrow> k \<le> k' \<Longrightarrow> \<not> prefix r k'"
proof (induction r arbitrary: k k')
  case Nil
  then show ?case by simp
next
  case (Cons c cs)
  from Cons.prems(1) obtain d ds where k: "k = d # ds" and cd: "c < d \<or> c = d \<and> cs \<le> ds"
    by (cases k) auto
  from Cons.prems(3) k obtain d' ds' where k': "k' = d' # ds'" and dd: "d < d' \<or> d = d' \<and> ds \<le> ds'"
    by (cases k') auto
  show ?case
  proof
    assume "prefix (c # cs) k'"
    with k' have c: "c = d'" and p: "prefix cs ds'" by auto
    from cd dd c have "c = d" "d = d'" "cs \<le> ds" "ds \<le> ds'" by auto
    moreover from Cons.prems(2) k \<open>c = d\<close> have "\<not> prefix cs ds" by simp
    ultimately have "\<not> prefix cs ds'" using Cons.IH by blast
    with p show False by contradiction
  qed
qed

lemma seek_ge:
  "strictly_sorted b \<Longrightarrow> \<forall>e \<in> set (cursor_Seek b r). r \<le> fst e"
proof (induction b)
  case Nil
  show ?case by (simp add: cursor_Seek_def)
next
  case (Cons e es)
  from Cons.prems have tl: "strictly_sorted es" and hd: "\<forall>x \<in> set es. fst e < fst x"
    by (auto simp: strictly_sorted_def)
  show ?case
  proof (cases "fst e < r")
    case True
    with Cons.IH[OF tl] show ?thesis by (simp add: cursor_Seek_def)
  next
    case False
    then have "r \<le> fst e" by simp
    with hd have "\<forall>x \<in> set (e # es). r \<le> fst x" by fastforce
    with False show ?thesis by (simp add: cursor_Seek_def)
  qed
qed

lemma seek_selected:
  "filter (selected r n) (cursor_Seek b r) = filter (selected r n) b"
proof (induction b)
  case Nil
  show ?case by (simp add: cursor_Seek_def)
next
  case (Cons e es)
  show ?case
  proof (cases "fst e < r")
    case True
    then have "\<not> prefix r (fst e)" using prefix_le[of r "fst e"] by auto
    with True Cons.IH show ?thesis by (simp add: cursor_Seek_def selected_def)
  next
    case False
    then show ?thesis by (simp add: cursor_Seek_def)
  qed
qed

lemma seek_suffix: "\<exists>front. b = front @ cursor_Seek b r"
  unfolding cursor_Seek_def by (metis takeWhile_dropWhile_id)

lemma sorted_seek: "strictly_sorted b \<Longrightarrow> strictly_sorted (cursor_Seek b r)"
  using seek_suffix[of b r] by (metis map_append sorted_wrt_append strictly_sorted_def)

lemma decodable_seek: "decodable b \<Longrightarrow> decodable (cursor_Seek b r)"
  using seek_suffix[of b r] by (metis decodable_def list_all_append)

lemma scanPull_sorted:
  "strictly_sorted b \<Longrightarrow> decodable b \<Longrightarrow> \<forall>e \<in> set b. r \<le> fst e \<Longrightarrow>
     scanPull lib r n b acc = Inr (acc @ concat (map stored (filter (selected r n) b)))"
proof (induction b arbitrary: acc)
  case Nil
  show ?case by simp
next
  case (Cons e es)
  from Cons.prems(2) obtain k l where e: "e = (k, Json l)"
    by (cases e, cases "snd e") (auto simp: decodable_def)
  from Cons.prems have tl: "strictly_sorted es" "decodable es" "\<forall>x \<in> set es. r \<le> fst x"
    and hd: "\<forall>x \<in> set es. k < fst x" and rk: "r \<le> k"
    by (auto simp: strictly_sorted_def decodable_def e)
  show ?case
  proof (cases "prefix r k")
    case True
    with Cons.IH[OF tl] show ?thesis by (simp add: e selected_def)
  next
    case False
    have "\<not> selected r n x" if "x \<in> set es" for x
    proof -
      from hd that have "k \<le> fst x" by fastforce
      with rk False have "\<not> prefix r (fst x)" by (rule past_prefix)
      then show ?thesis by (simp add: selected_def)
    qed
    then have emp: "filter (selected r n) es = []" by (simp add: filter_empty_conv)
    from False have ne: "\<not> selected r n (k, Json l)" by (simp add: selected_def)
    from False show ?thesis by (simp add: e ne emp)
  qed
qed

lemma Unlock_decodable:
  assumes "decodable b"
  shows "\<exists>res. Unlock p w b = (Inr res, bucket_Delete b (lockKey p w))"
proof (cases "bucket_Get b (lockKey p w)")
  case None
  then show ?thesis by (simp add: Unlock_def)
next
  case (Some v)
  then have "(lockKey p w, v) \<in> set b"
    by (simp add: bucket_Get_def map_of_SomeD)
  with assms obtain l where "v = Json l"
    by (cases v) (auto simp: decodable_def list_all_iff)
  with Some show ?thesis by (simp add: Unlock_def)
qed

lemma unlockEach_decodable:
  "decodable b \<Longrightarrow>
     unlockEach ls b =
       (None, filter (\<lambda>e. fst e \<notin> (\<lambda>l. lockKey (ProjectLock.Project l) (ProjectLock.Workspace l)) ` set ls) b)"
proof (induction ls arbitrary: b)
  case Nil
  show ?case by simp
next
  case (Cons l ls)
  from Unlock_decodable[OF Cons.prems]
  obtain res where u: "Unlock (ProjectLock.Project l) (ProjectLock.Workspace l) b =
      (Inr res, bucket_Delete b (lockKey (ProjectLock.Project l) (ProjectLock.Workspace l)))"
    by blast
  have d: "decodable (bucket_Delete b (lockKey (ProjectLock.Project l) (ProjectLock.Workspace l)))"
    using Cons.prems by (rule decodable_Delete)
  show ?case
    using Cons.IH[OF d] by (auto simp: u bucket_Delete_def intro: filter_cong)
qed

lemma key_unique:
  "strictly_sorted b \<Longrightarrow> e \<in> set b \<Longrightarrow> e' \<in> set b \<Longrightarrow> fst e = fst e' \<Longrightarrow> e = e'"
proof (induction b)
  case Nil
  then show ?case by simp
next
  case (Cons x xs)
  from Cons.prems(1) have tl: "strictly_sorted xs" and hd: "\<forall>y \<in> set xs. fst x < fst y"
    by (auto simp: strictly_sorted_def)
  from Cons.prems(2,3,4) hd Cons.IH[OF tl] show ?case by fastforce
qed

lemma stored_filed:
  "filed b \<Longrightarrow> e \<in> set b \<Longrightarrow> l \<in> set (stored e) \<Longrightarrow>
     lockKey (ProjectLock.Project l) (ProjectLock.Workspace l) = fst e"
proof -
  assume f: "filed b" and e: "e \<in> set b" and l: "l \<in> set (stored e)"
  obtain k v where kv: "e = (k, v)" by (cases e)
  from l kv have v: "v = Json l" by (cases v) simp_all
  from f e show ?thesis by (auto simp: filed_def list_all_iff kv v)
qed

lemma selected_stored: "selected r n e \<Longrightarrow> \<exists>l. l \<in> set (stored e)"
proof -
  assume s: "selected r n e"
  obtain k v where kv: "e = (k, v)" by (cases e)
  from s kv show ?thesis by (cases v) (simp_all add: selected_def)
qed

lemma found_keys:
  assumes "filed b"
  shows "(\<lambda>l. lockKey (ProjectLock.Project l) (ProjectLock.Workspace l)) `
           set (concat (map stored (filter (selected r n) b)))
         = fst ` {e \<in> set b. selected r n e}"
proof (intro set_eqI iffI)
  fix k
  assume "k \<in> (\<lambda>l. lockKey (ProjectLock.Project l) (ProjectLock.Workspace l)) `
           set (concat (map stored (filter (selected r n) b)))"
  then obtain l e where "e \<in> set b" "selected r n e" "l \<in> set (stored e)"
    and k: "k = lockKey (ProjectLock.Project l) (ProjectLock.Workspace l)"
    by auto
  then have "fst e = k" "e \<in> {e \<in> set b. selected r n e}"
    using stored_filed[OF assms, of e l] by simp_all
  then show "k \<in> fst ` {e \<in> set b. selected r n e}"
    by (metis image_eqI)
next
  fix k
  assume "k \<in> fst ` {e \<in> set b. selected r n e}"
  then obtain e where e: "e \<in> set b" "selected r n e" "k = fst e" by auto
  from selected_stored[OF e(2)] obtain l where l: "l \<in> set (stored e)" by blast
  from e(1,2) have "e \<in> set (filter (selected r n) b)" by simp
  with l have mem: "l \<in> set (concat (map stored (filter (selected r n) b)))"
    unfolding set_concat set_map by blast
  from stored_filed[OF assms e(1) l] e(3)
  have "k = lockKey (ProjectLock.Project l) (ProjectLock.Workspace l)" by simp
  with mem
  show "k \<in> (\<lambda>l. lockKey (ProjectLock.Project l) (ProjectLock.Workspace l)) `
           set (concat (map stored (filter (selected r n) b)))"
    by blast
qed

lemma UnlockByPull_selected:
  assumes "store_inv b"
  shows "UnlockByPull lib r n b =
    (Inr (concat (map stored (filter (selected r n) b))), filter (\<lambda>e. \<not> selected r n e) b)"
proof -
  from assms have s: "strictly_sorted b" and f: "filed b" and d: "decodable b"
    by (simp_all add: store_inv_def)
  have scan: "scanPull lib r n (cursor_Seek b r) [] =
      Inr (concat (map stored (filter (selected r n) b)))"
    using scanPull_sorted[OF sorted_seek[OF s] decodable_seek[OF d] seek_ge[OF s], where lib = lib and n = n and acc = "[]"]
    by (simp add: seek_selected)
  have "filter (\<lambda>e. fst e \<notin> fst ` {e \<in> set b. selected r n e}) b =
      filter (\<lambda>e. \<not> selected r n e) b"
  proof (rule filter_cong[OF refl])
    fix e assume e: "e \<in> set b"
    show "(fst e \<notin> fst ` {e \<in> set b. selected r n e}) = (\<not> selected r n e)"
    proof
      assume "fst e \<notin> fst ` {e \<in> set b. selected r n e}"
      with e show "\<not> selected r n e" by blast
    next
      assume n: "\<not> selected r n e"
      show "fst e \<notin> fst ` {e \<in> set b. selected r n e}"
      proof
        assume "fst e \<in> fst ` {e \<in> set b. selected r n e}"
        then obtain e' where e': "e' \<in> set b" "selected r n e'" "fst e = fst e'" by auto
        from key_unique[OF s e e'(1) e'(3)] e'(2) n show False by simp
      qed
    qed
  qed
  then have "unlockEach (concat (map stored (filter (selected r n) b))) b =
      (None, filter (\<lambda>e. \<not> selected r n e) b)"
    by (simp only: unlockEach_decodable[OF d] found_keys[OF f])
  then show ?thesis
    by (simp add: UnlockByPull_def scan)
qed

lemma UnlockByPull_clears_pull:
  assumes "store_inv b" and "(k, Json l) \<in> set (snd (UnlockByPull lib r n b))"
  shows "\<not> (RepoFullName (ProjectLock.Project l) = r \<and> Num (ProjectLock.Pull l) = n)"
proof
  assume rn: "RepoFullName (ProjectLock.Project l) = r \<and> Num (ProjectLock.Pull l) = n"
  from assms have mem: "(k, Json l) \<in> set b" and ns: "\<not> selected r n (k, Json l)"
    by (simp_all add: UnlockByPull_selected)
  from assms(1) have "filed b" by (simp add: store_inv_def)
  with mem have "k = lockKey (ProjectLock.Project l) (ProjectLock.Workspace l)"
    by (auto simp: filed_def list_all_iff)
  with rn have "prefix r k" by (simp add: lockKey_def)
  with rn ns show False by (simp add: selected_def)
qed

text \<open>
  Claim C2. \<open>UnlockByPull R N\<close> should remove the locks of pull request N of repo R and
  leave every lock of another repo alone. The cursor loop selects by key prefix and pull
  number only: with pull request 1 of \<open>owner/repo\<close> and pull request 1 of
  \<open>owner/repo-b\<close> both holding a lock, \<open>UnlockByPull("owner/repo", 1)\<close> returns both
  locks and empties the bucket.
\<close>

theorem UnlockByPull_removes_lock_of_other_repo:
  "UnlockByPull goLib ''owner/repo'' 1
     (snd (TryLock goLib (lockOf repoB ''.'' ''default'' 1)
        (snd (TryLock goLib (lockOf repoA ''.'' ''default'' 1) []))))
   = (Inr [lockOf repoB ''.'' ''default'' 1, lockOf repoA ''.'' ''default'' 1], [])"
  by (simp add: fixtures lockKey_def bucket_Get_def TryLock_def UnlockByPull_def
      cursor_Seek_def Unlock_def bucket_Delete_def bucket_Put_def goLib_fields
      MaxKeySize_def MaxValueSize_def)

section \<open>The aggregate commit status\<close>

lemma worstStatus_Failed:
  "worstStatus ss = (if FailedCommitStatus \<in> set ss then FailedCommitStatus else SuccessCommitStatus)"
  by (induction ss) auto

text \<open>
  Claim C7. The status that \<open>UpdateProjectResult\<close> posts for a command result is Failed
  when the top-level Error or Failure is set or some project result has an Error or a
  non-empty Failure, and Success otherwise; with no top-level error and no project
  results it is Success.
\<close>

theorem aggregate_status:
  "UpdateProjectResult res =
     (if CommandResult.Error res \<noteq> None \<or> CommandResult.Failure res \<noteq> '''' \<or>
         (\<exists>p \<in> set (ProjectResults res).
            ProjectResult.Error p \<noteq> None \<or> ProjectResult.Failure p \<noteq> '''')
      then FailedCommitStatus else SuccessCommitStatus) \<and>
   (CommandResult.Error res = None \<and> CommandResult.Failure res = '''' \<and> ProjectResults res = [] \<longrightarrow>
      UpdateProjectResult res = SuccessCommitStatus)"
  by (auto simp: UpdateProjectResult_def worstStatus_Failed Status_def image_iff)

theorem aggregate_status_witness:
  "UpdateProjectResult \<lparr>CommandResult.Error = None, CommandResult.Failure = '''', ProjectResults = []\<rparr>
     = SuccessCommitStatus \<and>
   UpdateProjectResult \<lparr>CommandResult.Error = None, CommandResult.Failure = '''',
      ProjectResults = [ProjectResult_zero\<lparr>ApplySuccess := ''done''\<rparr>,
                        ProjectResult_zero\<lparr>ProjectResult.Failure := ''locked''\<rparr>]\<rparr>
     = FailedCommitStatus"
  using aggregate_status[of "\<lparr>CommandResult.Error = None, CommandResult.Failure = '''', ProjectResults = []\<rparr>"]
    aggregate_status[of "\<lparr>CommandResult.Error = None, CommandResult.Failure = '''',
      ProjectResults = [ProjectResult_zero\<lparr>ApplySuccess := ''done''\<rparr>,
                        ProjectResult_zero\<lparr>ProjectResult.Failure := ''locked''\<rparr>]\<rparr>"]
  by (simp add: ProjectResult_zero_def)

section \<open>Where the var-file arguments go\<close>

text \<open>
  Claim C6 (as amended). When \<open>os.Stat\<close> finds \<open>env/{workspace}.tfvars\<close> under the
  project path, \<open>buildPlanCmd\<close> puts \<open>-var-file\<close> and the joined path of that file at
  the end of the argument list: after the fixed plan arguments, the \<open>-var\<close> arguments,
  the extra arguments of the config and the arguments of the comment.
\<close>

theorem var_file_appended:
  assumes "os_Stat_ok env (filepath_Join lib [path, ''env'', ProjectCommandContext.Workspace ctx @ ''.tfvars''])"
  shows "buildPlanCmd lib env ctx extraArgs path tfVersion =
     [''plan'', ''-input=false'', ''-refresh'', ''-no-color'', ''-out'',
      strconv_Quote lib (filepath_Join lib
        [path, GetPlanFilename env (ProjectCommandContext.Workspace ctx) (ProjectCommandContext.ProjectConfig ctx)])] @
     tfVars lib env ctx tfVersion @ extraArgs @ CommentArgs ctx @
     [''-var-file'', filepath_Join lib [path, ''env'', ProjectCommandContext.Workspace ctx @ ''.tfvars'']]"
  using assms by (simp add: buildPlanCmd_def flatten_def Let_def)

theorem var_file_appended_witness:
  "os_Stat_ok planEnv ''/repo/env/prod.tfvars'' \<and>
   buildPlanCmd goLib planEnv planCtx [''-lock=false''] ''/repo'' ''0.12.0'' =
     [''plan'', ''-input=false'', ''-refresh'', ''-no-color'', ''-out'', quoted ''/repo/prod.tfplan'',
      ''-lock=false'', ''-target=aws_instance.web'', ''-var-file'', ''/repo/env/prod.tfvars'']"
  using var_file_appended[of planEnv goLib "''/repo''" planCtx "[''-lock=false'']" "''0.12.0''"]
  by (simp add: planEnv_def planCtx_def goLib_def tfVars_def)

text \<open>
  The claim as stated fails: for workspace \<open>prod\<close> in \<open>/repo\<close> with one extra
  argument and one comment argument, the list neither starts with the var-file arguments
  nor holds the relative name \<open>env/prod.tfvars\<close>; the var-file arguments are its last
  two elements.
\<close>

theorem var_file_not_prepended:
  "buildPlanCmd goLib planEnv planCtx [''-lock=false''] ''/repo'' ''0.11.7'' =
     [''plan'', ''-input=false'', ''-refresh'', ''-no-color'', ''-out'', quoted ''/repo/prod.tfplan'',
      ''-var'', ''atlantis_user='' @ quoted ''lkysow'',
      ''-var'', ''atlantis_repo='' @ quoted ''owner/repo'',
      ''-var'', ''atlantis_repo_name='' @ quoted ''repo'',
      ''-var'', ''atlantis_repo_owner='' @ quoted ''owner'',
      ''-var'', ''atlantis_pull_num=1'',
      ''-lock=false'', ''-target=aws_instance.web'', ''-var-file'', ''/repo/env/prod.tfvars''] \<and>
   take 2 (buildPlanCmd goLib planEnv planCtx [''-lock=false''] ''/repo'' ''0.11.7'')
     \<noteq> [''-var-file'', ''env/prod.tfvars''] \<and>
   ''env/prod.tfvars'' \<notin> set (buildPlanCmd goLib planEnv planCtx [''-lock=false''] ''/repo'' ''0.11.7'')"
  by (simp add: buildPlanCmd_def flatten_def planEnv_def planCtx_def goLib_def tfVars_def fixtures
      itoa_def digits.simps char_of_def bit_0 quoted_def)

section \<open>Responses of DeleteLock\<close>

lemma DeleteByID_stored:
  "DeleteByID k b =
     (case bucket_Get b k of
        None \<Rightarrow> (Inr None, b)
      | Some (Json lock) \<Rightarrow> (Inr (Some lock), bucket_Delete b k)
      | Some (Garbage e) \<Rightarrow> (Inl e, b))"
  by (simp add: DeleteByID_def split: option.splits blob.splits)

lemma DeleteByID_removes:
  "fst (DeleteByID k b) = Inr (Some lock) \<Longrightarrow>
     bucket_Get b k = Some (Json lock) \<and> bucket_Get (snd (DeleteByID k b)) k = None"
  by (auto simp: DeleteByID_stored bucket_Get_def bucket_Delete_def map_of_eq_None_iff
      split: option.splits blob.splits)

text \<open>
  Claim C8. \<open>DeleteLock\<close> answers 400 when the route has no id or an empty one, 400
  when the id cannot be unescaped, 500 when the delete command returns an error, 404 when
  it returns no lock, and otherwise 200 with the body \<open>Deleted lock id\<close> followed by the
  quoted id as it came in the request; the bucket is then the one the delete command left.
\<close>

theorem DeleteLock_responses:
  "(idVar = None \<or> idVar = Some '''' \<longrightarrow>
      code (fst (fst (DeleteLock lib l idVar b))) = 400) \<and>
   (idVar = Some id' \<and> id' \<noteq> '''' \<and> url_PathUnescape lib id' = Inl err \<longrightarrow>
      code (fst (fst (DeleteLock lib l idVar b))) = 400) \<and>
   (idVar = Some id' \<and> id' \<noteq> '''' \<and> url_PathUnescape lib id' = Inr idUnencoded \<longrightarrow>
      (fst (DeleteLockCommand l idUnencoded b) = Inl err \<longrightarrow>
         code (fst (fst (DeleteLock lib l idVar b))) = 500) \<and>
      (fst (DeleteLockCommand l idUnencoded b) = Inr None \<longrightarrow>
         code (fst (fst (DeleteLock lib l idVar b))) = 404) \<and>
      (fst (DeleteLockCommand l idUnencoded b) = Inr (Some lock) \<longrightarrow>
         fst (fst (DeleteLock lib l idVar b)) =
           \<lparr>code = 200, body = ''Deleted lock id '' @ strconv_Quote lib id' @ [CHR 0x0A]\<rparr> \<and>
         snd (DeleteLock lib l idVar b) = snd (DeleteLockCommand l idUnencoded b)))"
  by (cases "DeleteLockCommand l idUnencoded b")
     (auto simp: DeleteLock_def respond_def split: option.splits sum.splits)

theorem DeleteLock_responses_witness:
  "code (fst (fst (DeleteLock goLib controller None []))) = 400 \<and>
   code (fst (fst (DeleteLock goLib controller (Some ''%A@'') []))) = 400 \<and>
   code (fst (fst (DeleteLock goLib controller (Some ''owner%2Frepo%2F.%2Fdefault'')
      [(''owner/repo/./default'', Garbage (Err ''unexpected end of JSON input''))]))) = 500 \<and>
   code (fst (fst (DeleteLock goLib controller (Some ''owner%2Frepo%2F.%2Fdefault'') []))) = 404 \<and>
   DeleteLock goLib controller (Some ''owner%2Frepo%2F.%2Fdefault'')
      [(''owner/repo/./default'', Json oldLock)] =
     ((\<lparr>code = 200, body = ''Deleted lock id '' @ quoted ''owner%2Frepo%2F.%2Fdefault'' @ [CHR 0x0A]\<rparr>,
       []), [])"
proof -
  let ?id = "''owner%2Frepo%2F.%2Fdefault''"
  have u: "url_PathUnescape goLib ?id = Inr ''owner/repo/./default''"
    by (simp add: ishex_def unhex_def char_of_def bit_0)
  have bad: "url_PathUnescape goLib ''%A@'' = Inl (Err (''invalid URL escape '' @ quoted ''%A@''))"
    by (simp add: ishex_def unhex_def EscapeError_def goLib_def)
  note t = DeleteLock_responses[where lib = goLib and l = controller]
  have 1: "code (fst (fst (DeleteLock goLib controller None []))) = 400"
    using t[where idVar = None] by simp
  have 2: "code (fst (fst (DeleteLock goLib controller (Some ''%A@'') []))) = 400"
    using t[where idVar = "Some ''%A@''" and id' = "''%A@''" and b = "[]"] bad by simp
  have 3: "code (fst (fst (DeleteLock goLib controller (Some ?id)
      [(''owner/repo/./default'', Garbage (Err ''unexpected end of JSON input''))]))) = 500"
    using t[where idVar = "Some ?id" and id' = ?id and err = "Err ''unexpected end of JSON input''"
        and b = "[(''owner/repo/./default'', Garbage (Err ''unexpected end of JSON input''))]"
        and idUnencoded = "''owner/repo/./default''"] u
    by (simp add: controller_def DeleteByID_stored bucket_Get_def)
  have 4: "code (fst (fst (DeleteLock goLib controller (Some ?id) []))) = 404"
    using t[where idVar = "Some ?id" and id' = ?id and b = "[]"
        and idUnencoded = "''owner/repo/./default''"] u
    by (simp add: controller_def DeleteByID_stored bucket_Get_def)
  have 5: "DeleteLock goLib controller (Some ?id) [(''owner/repo/./default'', Json oldLock)] =
     ((\<lparr>code = 200, body = ''Deleted lock id '' @ quoted ?id @ [CHR 0x0A]\<rparr>, []), [])"
    using t[where idVar = "Some ?id" and id' = ?id
        and b = "[(''owner/repo/./default'', Json oldLock)]"
        and idUnencoded = "''owner/repo/./default''" and lock = oldLock] u
    by (simp add: controller_def DeleteByID_stored bucket_Get_def bucket_Delete_def
        DeleteLock_def afterDelete_def oldLock_def fixtures goLib_def prod_eq_iff)
  from 1 2 3 4 5 show ?thesis by blast
qed

section \<open>The comment after a delete\<close>




section \<open>The plans that Execute collects\<close>


lemma walk_broken:
  "\<not> readable node \<Longrightarrow> \<exists>err. walk lib a ctx repoDir path name node plans = Inl err"
  "\<not> readableAll names \<Longrightarrow> \<exists>err. walkNames lib a ctx repoDir path names plans = Inl err"
proof (induction lib a ctx repoDir path name node plans and lib a ctx repoDir path names plans
    rule: walk_walkNames.induct)
  case (5 lib a ctx repoDir path name node names plans)
  show ?case
  proof (cases "walk lib a ctx repoDir (filepath_Join lib [path, name]) name node plans")
    case (Inl err)
    then show ?thesis by simp
  next
    case (Inr plans')
    with "5.IH"(1) have "readable node" by auto
    with "5.prems" have "\<not> readableAll names" by simp
    with "5.IH"(2)[OF Inr] Inr show ?thesis by simp
  qed
qed simp_all

lemma findPlans_unreadable:
  assumes "Dir (CommandContext.Command ctx) = ''''" and "\<not> readable (snd (os_Tree a repoDir))"
  obtains err where "findPlans lib a ctx repoDir =
      Inl (CommandResponse_zero\<lparr>CommandResult.Error := Some (errors_Wrap err ''finding plans'')\<rparr>)"
proof -
  from walk_broken(1)[OF assms(2)]
  obtain err where "walk lib a ctx repoDir repoDir (fst (os_Tree a repoDir))
      (snd (os_Tree a repoDir)) [] = Inl err"
    by blast
  with assms(1) have "findPlans lib a ctx repoDir =
      Inl (CommandResponse_zero\<lparr>CommandResult.Error := Some (errors_Wrap err ''finding plans'')\<rparr>)"
    by (simp add: findPlans_def)
  then show ?thesis by (rule that)
qed



lemma executor_fields:
  "RequireApproval (executor tree) = False"
  "AtlantisWorkspace_GetWorkspace (executor tree) = (\<lambda>repo pull workspace. Inr ''/d'')"
  "os_Tree (executor tree) = (\<lambda>root. (''d'', tree))"
  "os_Stat (executor tree) = (\<lambda>path. if path = ''/d/modules/db/default.tfplan'' then Inr False
                        else Inl (Err ''no such file or directory''))"
  "ProjectPreExecute (executor tree) = preExecute goLib preInputs"
  by (simp_all add: executor_def)

lemma preInputs_fields:
  "loadConfig preInputs = Inr \<lparr>PostApply = []\<rparr>"
  "resolveVersion preInputs = Inr ''0.11.7''" "runInit preInputs = None" "now preInputs = 0"
  "heldBy preInputs = (\<lambda>holder. ''This project is currently locked by another pull request.'')"
  by (simp_all add: preInputs_def)

lemma applyCtx_fields:
  "CommandContext.Pull applyCtx = pullOf repoA 1"
  "CommandContext.User applyCtx = \<lparr>Username = ''lkysow''\<rparr>"
  "CommandContext.BaseRepo applyCtx = repoA"
  "Command.Workspace (CommandContext.Command applyCtx) = ''default''"
  "Dir (CommandContext.Command applyCtx) = ''''"
  "Flags (CommandContext.Command applyCtx) = []"
  "Command.Name (CommandContext.Command applyCtx) = ApplyCommand"
  by (simp_all add: applyCtx_def)

lemma executor_runs:
  "Terraform_RunCommandWithVersion (executor tree) = (\<lambda>path args version workspace. (''Apply complete!'', None))"
  "Run_Execute (executor tree) = (\<lambda>commands path workspace version stage. ('''', None))"
  "GetExtraArguments (executor tree) = (\<lambda>config name. [])"
  "NewProject (executor tree) = (\<lambda>repoFullName path. \<lparr>RepoFullName = repoFullName, Project.Path = path\<rparr>)"
  by (simp_all add: executor_def)

lemma apply_from_empty:
  "ApplyExecutor_apply goLib (executor tree) applyCtx ''/d'' rootPlan \<lparr>locks = [], webhooks = []\<rparr> =
     (ProjectResult_zero\<lparr>ApplySuccess := ''Apply complete!''\<rparr>,
      \<lparr>locks = [(''owner/repo/./default'', Json (lockOf repoA ''.'' ''default'' 1))],
       webhooks = [\<lparr>ApplyResult.Workspace = ''default'', ApplyResult.User = \<lparr>Username = ''lkysow''\<rparr>,
                    Repo = repoA, ApplyResult.Pull = pullOf repoA 1, Success = True\<rparr>]\<rparr>)"
  by (simp add: ApplyExecutor_apply_def executor_fields executor_runs preExecute_def preInputs_fields
      applyCtx_fields rootPlan_def TryLock_def lockKey_def bucket_Get_def Let_def lockOf_def
      ProjectResult_zero_def bucket_Put_def goLib_fields MaxKeySize_def MaxValueSize_def)
     (simp add: repoA_def)


section \<open>Apply and the lock\<close>

lemma preExecute_ok:
  assumes msg: "\<And>holder. heldBy inp holder \<noteq> ''''"
    and ok: "PreExecuteResult.ProjectResult (fst (preExecute lib inp ctx repoDir project b)) = ProjectResult_zero"
    and stores: "bucket_Get b (lockKey project (Command.Workspace (CommandContext.Command ctx))) = None \<longrightarrow>
      length (lockKey project (Command.Workspace (CommandContext.Command ctx))) \<le> MaxKeySize \<and>
      (\<exists>kept.
         json_Marshal lib \<lparr>ProjectLock.Project = project, ProjectLock.Pull = CommandContext.Pull ctx,
                 ProjectLock.User = CommandContext.User ctx,
                 ProjectLock.Workspace = Command.Workspace (CommandContext.Command ctx),
                 Time = now inp\<rparr> = Inr (Json kept) \<and>
         len_bytes lib (Json kept) \<le> MaxValueSize \<and>
         Num (ProjectLock.Pull kept) = Num (CommandContext.Pull ctx) \<and>
         FullName (PullRequest.BaseRepo (ProjectLock.Pull kept))
           = FullName (PullRequest.BaseRepo (CommandContext.Pull ctx)))"
  shows "\<exists>holder.
      bucket_Get (snd (preExecute lib inp ctx repoDir project b))
        (lockKey project (Command.Workspace (CommandContext.Command ctx))) = Some (Json holder) \<and>
      Num (ProjectLock.Pull holder) = Num (CommandContext.Pull ctx) \<and>
      FullName (PullRequest.BaseRepo (ProjectLock.Pull holder))
        = FullName (PullRequest.BaseRepo (CommandContext.Pull ctx))"
proof -
  let ?new = "\<lparr>ProjectLock.Project = project, ProjectLock.Pull = CommandContext.Pull ctx,
                 ProjectLock.User = CommandContext.User ctx,
                 ProjectLock.Workspace = Command.Workspace (CommandContext.Command ctx),
                 Time = now inp\<rparr>"
  let ?key = "lockKey project (Command.Workspace (CommandContext.Command ctx))"
  obtain r b' where t: "TryLock lib ?new b = (r, b')" by (cases "TryLock lib ?new b")
  from ok msg t obtain acquired holder where
    r: "r = Inr (acquired, holder)" and
    same: "acquired \<or> Num (ProjectLock.Pull holder) = Num (CommandContext.Pull ctx) \<and>
       FullName (PullRequest.BaseRepo (ProjectLock.Pull holder))
         = FullName (PullRequest.BaseRepo (CommandContext.Pull ctx))" and
    b: "snd (preExecute lib inp ctx repoDir project b) = b'"
    by (auto simp: preExecute_def Let_def ProjectResult_zero_def
        split: sum.splits option.splits if_splits)
  have "\<exists>h. bucket_Get b' ?key = Some (Json h) \<and>
      Num (ProjectLock.Pull h) = Num (CommandContext.Pull ctx) \<and>
      FullName (PullRequest.BaseRepo (ProjectLock.Pull h))
        = FullName (PullRequest.BaseRepo (CommandContext.Pull ctx))"
  proof (cases "bucket_Get b ?key")
    case None
    with stores obtain kept where m: "json_Marshal lib ?new = Inr (Json kept)"
      and v: "len_bytes lib (Json kept) \<le> MaxValueSize"
      and pr: "Num (ProjectLock.Pull kept) = Num (CommandContext.Pull ctx)"
        "FullName (PullRequest.BaseRepo (ProjectLock.Pull kept))
           = FullName (PullRequest.BaseRepo (CommandContext.Pull ctx))"
      by blast
    from None stores have k: "length ?key \<le> MaxKeySize" by simp
    from None have n: "bucket_Get b (lockKey (ProjectLock.Project ?new) (ProjectLock.Workspace ?new)) = None"
      by simp
    from k have k': "length (lockKey (ProjectLock.Project ?new) (ProjectLock.Workspace ?new)) \<le> MaxKeySize"
      by simp
    from TryLock_stores(2)[OF n m k' v] t have "bucket_Get b' ?key = Some (Json kept)" by simp
    with pr show ?thesis by blast
  next
    case (Some v)
    show ?thesis
    proof (cases v)
      case (Json c)
      with Some have "TryLock lib ?new b = (Inr (False, c), b)"
        by (simp add: TryLock_def)
      with t r have "\<not> acquired" "holder = c" "b' = b" by simp_all
      with same Some Json show ?thesis by blast
    next
      case (Garbage e)
      with Some have "fst (TryLock lib ?new b) =
          Inl (errors_Wrap (errors_Wrap e ''failed to deserialize current lock'') ''DB transaction failed'')"
        by (simp add: TryLock_def)
      with t r show ?thesis by simp
    qed
  qed
  with b show ?thesis by simp
qed

text \<open>
  Claim C1 (as amended). \<open>apply\<close> never unlocks: the lock bucket after it is the
  bucket the pre-executor left. With the pre-executor of section 4.F and a non-empty
  lock-held message, after a run that ends without Error and without Failure the lock
  for the plan's project and the command's workspace is stored, and its holder is the pull
  request of the run; where the run itself acquires the lock, this is so when the store
  took it: \<open>json.Marshal\<close> wrote bytes that read back as a lock of that pull request,
  and key and bytes are within the limits of \<open>Put\<close>.
\<close>

theorem apply_leaves_lock:
  "locks (snd (ApplyExecutor_apply lib a ctx repoDir plan w)) =
     snd (ProjectPreExecute a ctx repoDir (Plan.Project plan) (locks w)) \<and>
   (ProjectPreExecute a = preExecute lib inp \<and> (\<forall>holder. heldBy inp holder \<noteq> '''') \<and>
    (bucket_Get (locks w)
       (lockKey (Plan.Project plan) (Command.Workspace (CommandContext.Command ctx))) = None \<longrightarrow>
     length (lockKey (Plan.Project plan) (Command.Workspace (CommandContext.Command ctx)))
       \<le> MaxKeySize \<and>
     (\<exists>kept.
        json_Marshal lib \<lparr>ProjectLock.Project = Plan.Project plan,
                 ProjectLock.Pull = CommandContext.Pull ctx,
                 ProjectLock.User = CommandContext.User ctx,
                 ProjectLock.Workspace = Command.Workspace (CommandContext.Command ctx),
                 Time = now inp\<rparr> = Inr (Json kept) \<and>
        len_bytes lib (Json kept) \<le> MaxValueSize \<and>
        Num (ProjectLock.Pull kept) = Num (CommandContext.Pull ctx) \<and>
        FullName (PullRequest.BaseRepo (ProjectLock.Pull kept))
          = FullName (PullRequest.BaseRepo (CommandContext.Pull ctx)))) \<and>
    ProjectResult.Error (fst (ApplyExecutor_apply lib a ctx repoDir plan w)) = None \<and>
    ProjectResult.Failure (fst (ApplyExecutor_apply lib a ctx repoDir plan w)) = '''' \<longrightarrow>
      (\<exists>holder.
         bucket_Get (locks (snd (ApplyExecutor_apply lib a ctx repoDir plan w)))
           (lockKey (Plan.Project plan) (Command.Workspace (CommandContext.Command ctx)))
           = Some (Json holder) \<and>
         Num (ProjectLock.Pull holder) = Num (CommandContext.Pull ctx) \<and>
         FullName (PullRequest.BaseRepo (ProjectLock.Pull holder))
           = FullName (PullRequest.BaseRepo (CommandContext.Pull ctx))))"
proof -
  let ?new = "\<lparr>ProjectLock.Project = Plan.Project plan,
                 ProjectLock.Pull = CommandContext.Pull ctx,
                 ProjectLock.User = CommandContext.User ctx,
                 ProjectLock.Workspace = Command.Workspace (CommandContext.Command ctx),
                 Time = now inp\<rparr>"
  let ?key = "lockKey (Plan.Project plan) (Command.Workspace (CommandContext.Command ctx))"
  obtain pre b' where p: "ProjectPreExecute a ctx repoDir (Plan.Project plan) (locks w) = (pre, b')"
    by (cases "ProjectPreExecute a ctx repoDir (Plan.Project plan) (locks w)")
  have same: "locks (snd (ApplyExecutor_apply lib a ctx repoDir plan w)) = b'"
    by (simp add: ApplyExecutor_apply_def p Let_def split: option.splits)
  have held: "\<exists>holder.
         bucket_Get b' ?key = Some (Json holder) \<and>
         Num (ProjectLock.Pull holder) = Num (CommandContext.Pull ctx) \<and>
         FullName (PullRequest.BaseRepo (ProjectLock.Pull holder))
           = FullName (PullRequest.BaseRepo (CommandContext.Pull ctx))"
    if a: "ProjectPreExecute a = preExecute lib inp" and msg: "\<forall>holder. heldBy inp holder \<noteq> ''''"
      and st: "bucket_Get (locks w) ?key = None \<longrightarrow>
        length ?key \<le> MaxKeySize \<and>
        (\<exists>kept. json_Marshal lib ?new = Inr (Json kept) \<and>
           len_bytes lib (Json kept) \<le> MaxValueSize \<and>
           Num (ProjectLock.Pull kept) = Num (CommandContext.Pull ctx) \<and>
           FullName (PullRequest.BaseRepo (ProjectLock.Pull kept))
             = FullName (PullRequest.BaseRepo (CommandContext.Pull ctx)))"
      and e: "ProjectResult.Error (fst (ApplyExecutor_apply lib a ctx repoDir plan w)) = None"
      and f: "ProjectResult.Failure (fst (ApplyExecutor_apply lib a ctx repoDir plan w)) = ''''"
  proof -
    have pz: "PreExecuteResult.ProjectResult pre = ProjectResult_zero"
    proof (rule ccontr)
      assume nz: "PreExecuteResult.ProjectResult pre \<noteq> ProjectResult_zero"
      then have r: "fst (ApplyExecutor_apply lib a ctx repoDir plan w) = PreExecuteResult.ProjectResult pre"
        by (simp add: ApplyExecutor_apply_def p Let_def)
      from p a have "pre = fst (preExecute lib inp ctx repoDir (Plan.Project plan) (locks w))"
        by simp
      with nz e f r msg show False
        by (auto simp: preExecute_def Let_def ProjectResult_zero_def
            split: sum.splits option.splits if_splits prod.splits)
    qed
    from p a have pre: "fst (preExecute lib inp ctx repoDir (Plan.Project plan) (locks w)) = pre"
      "snd (preExecute lib inp ctx repoDir (Plan.Project plan) (locks w)) = b'" by simp_all
    from msg have msg': "\<And>holder. heldBy inp holder \<noteq> ''''" by simp
    from pz pre have ok: "PreExecuteResult.ProjectResult
        (fst (preExecute lib inp ctx repoDir (Plan.Project plan) (locks w))) = ProjectResult_zero"
      by simp
    from preExecute_ok[OF msg' ok st] pre
    show ?thesis by auto
  qed
  from same held show ?thesis by (simp add: p)
qed

theorem apply_leaves_lock_witness:
  "fst (ApplyExecutor_apply goLib (executor workspaceTree) applyCtx ''/d'' rootPlan
          \<lparr>locks = [], webhooks = []\<rparr>) = ProjectResult_zero\<lparr>ApplySuccess := ''Apply complete!''\<rparr> \<and>
   snd (ProjectPreExecute (executor workspaceTree) applyCtx ''/d'' (Plan.Project rootPlan) [])
     = [(''owner/repo/./default'', Json (lockOf repoA ''.'' ''default'' 1))] \<and>
   (\<exists>holder.
      bucket_Get (locks (snd (ApplyExecutor_apply goLib (executor workspaceTree) applyCtx ''/d''
          rootPlan \<lparr>locks = [], webhooks = []\<rparr>))) ''owner/repo/./default'' = Some (Json holder) \<and>
      Num (ProjectLock.Pull holder) = 1)"
proof -
  let ?run = "ApplyExecutor_apply goLib (executor workspaceTree) applyCtx ''/d'' rootPlan
          \<lparr>locks = [], webhooks = []\<rparr>"
  let ?new = "\<lparr>ProjectLock.Project = Plan.Project rootPlan,
                 ProjectLock.Pull = CommandContext.Pull applyCtx,
                 ProjectLock.User = CommandContext.User applyCtx,
                 ProjectLock.Workspace = Command.Workspace (CommandContext.Command applyCtx),
                 Time = now preInputs\<rparr>"
  note t = apply_leaves_lock[where lib = goLib and a = "executor workspaceTree" and ctx = applyCtx
      and repoDir = "''/d''" and plan = rootPlan and w = "\<lparr>locks = [], webhooks = []\<rparr>"
      and inp = preInputs]
  have ran: "fst ?run = ProjectResult_zero\<lparr>ApplySuccess := ''Apply complete!''\<rparr>"
    by (simp add: apply_from_empty)
  have key: "lockKey (Plan.Project rootPlan) (Command.Workspace (CommandContext.Command applyCtx))
      = ''owner/repo/./default''"
    by (simp add: lockKey_def rootPlan_def applyCtx_fields)
  have "json_Marshal goLib ?new = Inr (Json ?new) \<and>
      len_bytes goLib (Json ?new) \<le> MaxValueSize \<and>
      Num (ProjectLock.Pull ?new) = Num (CommandContext.Pull applyCtx) \<and>
      FullName (PullRequest.BaseRepo (ProjectLock.Pull ?new))
        = FullName (PullRequest.BaseRepo (CommandContext.Pull applyCtx))"
    by (simp add: goLib_fields MaxValueSize_def rootPlan_def applyCtx_fields)
  then have fits: "length ''owner/repo/./default'' \<le> MaxKeySize \<and>
      (\<exists>kept. json_Marshal goLib ?new = Inr (Json kept) \<and>
         len_bytes goLib (Json kept) \<le> MaxValueSize \<and>
         Num (ProjectLock.Pull kept) = Num (CommandContext.Pull applyCtx) \<and>
         FullName (PullRequest.BaseRepo (ProjectLock.Pull kept))
           = FullName (PullRequest.BaseRepo (CommandContext.Pull applyCtx)))"
    by (simp add: MaxKeySize_def)
  have hyp: "ProjectPreExecute (executor workspaceTree) = preExecute goLib preInputs \<and>
      (\<forall>holder. heldBy preInputs holder \<noteq> '''') \<and>
      ProjectResult.Error (fst ?run) = None \<and> ProjectResult.Failure (fst ?run) = ''''"
    by (simp add: ran executor_fields preInputs_fields ProjectResult_zero_def)
  have num: "Num (CommandContext.Pull applyCtx) = 1"
    by (simp add: applyCtx_fields pullOf_def)
  from t hyp fits have held: "\<exists>holder.
      bucket_Get (locks (snd ?run)) ''owner/repo/./default'' = Some (Json holder) \<and>
      Num (ProjectLock.Pull holder) = 1"
    unfolding key num by blast
  from t have kept: "locks (snd ?run) =
      snd (ProjectPreExecute (executor workspaceTree) applyCtx ''/d'' (Plan.Project rootPlan)
             (locks \<lparr>locks = [], webhooks = []\<rparr>))"
    by (rule conjunct1)
  have after: "locks (snd ?run) = [(''owner/repo/./default'', Json (lockOf repoA ''.'' ''default'' 1))]"
    by (simp add: apply_from_empty)
  from kept after
  have pre: "snd (ProjectPreExecute (executor workspaceTree) applyCtx ''/d'' (Plan.Project rootPlan) [])
     = [(''owner/repo/./default'', Json (lockOf repoA ''.'' ''default'' 1))]"
    by simp
  from ran pre held show ?thesis by blast
qed

text \<open>
  The claim as stated fails: pull request 1 holds the lock of the root project from its
  plan; the apply run finds the plan, Terraform succeeds, the result is an ApplySuccess,
  and the bucket still holds that lock.
\<close>

theorem apply_does_not_unlock:
  "ApplyExecutor_Execute goLib (executor (Directory [(''default.tfplan'', File)])) applyCtx
      \<lparr>locks = snd (TryLock goLib (lockOf repoA ''.'' ''default'' 1) []), webhooks = []\<rparr> =
     (\<lparr>CommandResult.Error = None, CommandResult.Failure = '''',
       ProjectResults = [ProjectResult_zero\<lparr>ProjectResult.Path := ''/d/default.tfplan'',
                           ApplySuccess := ''Apply complete!''\<rparr>]\<rparr>,
      \<lparr>locks = [(''owner/repo/./default'', Json (lockOf repoA ''.'' ''default'' 1))],
       webhooks = [\<lparr>ApplyResult.Workspace = ''default'', ApplyResult.User = \<lparr>Username = ''lkysow''\<rparr>,
                    Repo = repoA, ApplyResult.Pull = pullOf repoA 1, Success = True\<rparr>]\<rparr>)"
proof -
  let ?a = "executor (Directory [(''default.tfplan'', File)])"
  let ?w = "\<lparr>locks = [(''owner/repo/./default'', Json (lockOf repoA ''.'' ''default'' 1))],
             webhooks = []\<rparr>"
  have s: "snd (TryLock goLib (lockOf repoA ''.'' ''default'' 1) []) =
      [(''owner/repo/./default'', Json (lockOf repoA ''.'' ''default'' 1))]"
    by (simp add: TryLock_def lockKey_def bucket_Get_def lockOf_def repoA_def bucket_Put_def
        goLib_fields MaxKeySize_def MaxValueSize_def)
  have p: "planAt goLib ?a applyCtx ''/d'' ''/d/default.tfplan'' = rootPlan"
    by (simp add: planAt_def executor_runs goLib_fields applyCtx_fields rootPlan_def dirOf_def
        relTo_def repoA_def)
  have f: "findPlans goLib ?a applyCtx ''/d'' = Inr [rootPlan]"
    by (simp add: findPlans_def applyCtx_fields executor_fields goLib_fields p)
  have ap: "ApplyExecutor_apply goLib ?a applyCtx ''/d'' rootPlan ?w =
     (ProjectResult_zero\<lparr>ApplySuccess := ''Apply complete!''\<rparr>,
      ?w\<lparr>webhooks := [\<lparr>ApplyResult.Workspace = ''default'', ApplyResult.User = \<lparr>Username = ''lkysow''\<rparr>,
                    Repo = repoA, ApplyResult.Pull = pullOf repoA 1, Success = True\<rparr>]\<rparr>)"
    by (simp add: ApplyExecutor_apply_def executor_fields executor_runs preExecute_def preInputs_fields
      applyCtx_fields rootPlan_def TryLock_def lockKey_def bucket_Get_def Let_def lockOf_def
      ProjectResult_zero_def pullOf_def)
  have lp: "LocalPath rootPlan = ''/d/default.tfplan''"
    by (simp add: rootPlan_def)
  show ?thesis
    by (simp add: s ApplyExecutor_Execute_def executor_fields applyCtx_fields f ap lp
        CommandResponse_zero_def ProjectResult_zero_def)
qed

end
